theory Spec2Isabelle
  imports Main
begin

section \<open>Data model\<close>

text \<open>
  A Python \<open>str\<close> is a sequence of Unicode code points, and \<open>len\<close>, indexing and
  slicing count code points. It is modelled as a list of code points, each an integer; \<open>ustr\<close> writes an ASCII literal as such a list. Severities, categories,
  levels and recommendations are plain strings in the source (\<open>severity: str\<close>), so
  they are strings here as well: a flag may carry a severity outside the four known
  tags, and the dictionaries below then fall back to their defaults as \<open>dict.get\<close> does.
\<close>

type_synonym ustring = "int list"

definition ustr :: "string \<Rightarrow> ustring" where
  "ustr s = map of_char s"

text \<open>
  A key of a dictionary read with \<open>d.get(key, default)\<close>: the key is absent, or it is
  present and holds a value, which may be \<open>None\<close>.
\<close>

datatype 'a lookup = Absent | Present 'a

definition get_or :: "'a lookup \<Rightarrow> 'a \<Rightarrow> 'a" where
  "get_or entry dflt = (case entry of Absent \<Rightarrow> dflt | Present v \<Rightarrow> v)"

text \<open>
  The dictionaries that \<open>analyze_applicant\<close> reads, with the keys it reads. A field
  carries the name of its key after the name of its dictionary: \<open>item_url\<close> is
  \<open>item.get('url')\<close>, \<open>data_id\<close> is \<open>applicant_data.get('id')\<close>. Where the source reads
  \<open>d.get(key)\<close>, or tests the value for truth only, an absent key and a key that holds
  \<open>None\<close> behave alike and the field is \<open>None\<close> for both. The platform is read with the
  default \<open>'unknown'\<close>, which stands in for an absent key only, so its field tells the
  two apart.
\<close>

record ContentItem =
  item_text_content :: "ustring option"
  item_platform :: "ustring option lookup"
  item_url :: "ustring option"
  item_published_at :: "ustring option"

record SocialProfile =
  profile_bio :: "ustring option"
  profile_platform :: "ustring option lookup"
  profile_url :: "ustring option"

record ApplicantData =
  data_id :: "int option"
  data_country :: "ustring option"

text \<open>\<open>keywords.py\<close>, dataclass \<open>KeywordMatch\<close>. The field \<open>context\<close> is named
  \<open>match_context\<close>, since \<open>context\<close> is reserved.\<close>

record KeywordMatch =
  keyword :: ustring
  category :: ustring
  severity :: ustring
  match_context :: ustring
  position :: nat

text \<open>\<open>guidelines.py\<close>, dataclass \<open>ContentFlag\<close>.\<close>

record ContentFlag =
  category :: ustring
  severity :: ustring
  title :: ustring
  description :: ustring
  evidence_snippet :: "ustring option"
  matched_keywords :: "ustring list"
  guideline_reference :: "ustring option"
  content_source :: "ustring option"
  content_url :: "ustring option"
  published_at :: "ustring option"

text \<open>\<open>guidelines.py\<close>, dataclass \<open>AnalysisResult\<close>. The timestamp \<open>analyzed_at\<close> is
  the clock reading handed to the analysis.\<close>

record AnalysisResult =
  applicant_id :: "int option"
  total_content_items :: nat
  flags :: "ContentFlag list"
  risk_score :: int
  risk_level :: ustring
  recommendation :: ustring
  analyzed_at :: nat
  summary :: ustring

section \<open>Python's library\<close>

text \<open>
  The exceptions that the model tells apart: \<open>re.error\<close>, which \<open>analyze_text\<close>
  catches; \<open>OverflowError\<close>, which \<open>re\<close> raises for a repetition count beyond its
  limit, as in the pattern \<open>a{4294967296}\<close>; \<open>ValueError\<close>, which \<open>max\<close> raises on an
  empty list.
\<close>

datatype py_error = ReError | OverflowError | ValueError

text \<open>
  The parts of Python's library that the code calls and that are not part of the
  repository are parameters of the model:
  \<^item> \<open>re_finditer pattern subject\<close> is \<open>re.finditer(pattern, subject, re.IGNORECASE)\<close>:
    it raises, when the pattern does not compile, or yields the spans
    \<open>(match.start(), match.end())\<close> of its matches in order;
  \<^item> \<open>str_lower\<close> and \<open>str_upper\<close> are \<open>str.lower\<close> and \<open>str.upper\<close>, which follow
    Unicode and may change the length of a string;
  \<^item> \<open>re_word\<close> says which code points \<open>\w\<close> matches in a \<open>str\<close> pattern.
\<close>

record python =
  re_finditer :: "ustring \<Rightarrow> ustring \<Rightarrow> py_error + (nat \<times> nat) list"
  str_lower :: "ustring \<Rightarrow> ustring"
  str_upper :: "ustring \<Rightarrow> ustring"
  re_word :: "int \<Rightarrow> bool"

section \<open>Strings, dictionaries and loops\<close>

text \<open>\<open>str.isspace\<close> of one code point: the white space that \<open>str.strip()\<close> removes.\<close>

definition is_space :: "int \<Rightarrow> bool" where
  "is_space n =
     ((9 \<le> n \<and> n \<le> 13) \<or> (28 \<le> n \<and> n \<le> 32) \<or> n = 133 \<or> n = 160 \<or> n = 5760
      \<or> (8192 \<le> n \<and> n \<le> 8202) \<or> n = 8232 \<or> n = 8233 \<or> n = 8239 \<or> n = 8287
      \<or> n = 12288)"

text \<open>\<open>s.strip()\<close>.\<close>

definition strip :: "ustring \<Rightarrow> ustring" where
  "strip s = rev (dropWhile is_space (rev (dropWhile is_space s)))"

text \<open>\<open>s.replace('_', ' ')\<close>.\<close>

definition replace_underscores :: "ustring \<Rightarrow> ustring" where
  "replace_underscores s = map (\<lambda>c. if c = 95 then 32 else c) s"

text \<open>\<open>sep.join(parts)\<close>.\<close>

fun join :: "ustring \<Rightarrow> ustring list \<Rightarrow> ustring" where
  "join sep [] = []"
| "join sep [p] = p"
| "join sep (p # q # ps) = p @ sep @ join sep (q # ps)"

text \<open>\<open>xs[start:stop]\<close> for \<open>0 \<le> start\<close> and \<open>0 \<le> stop\<close>: empty when \<open>stop \<le> start\<close>,
  clipped at the end of the list.\<close>

definition slice :: "'a list \<Rightarrow> nat \<Rightarrow> nat \<Rightarrow> 'a list" where
  "slice xs start stop = take (stop - start) (drop start xs)"

text \<open>The decimal digits of a natural number, as an f-string prints \<open>len(...)\<close> and the
  counts.\<close>

function str_nat :: "nat \<Rightarrow> ustring" where
  "str_nat n =
     (if n < 10 then [48 + int n] else str_nat (n div 10) @ [48 + int (n mod 10)])"
  by pat_completeness auto
termination
  by (relation "measure (\<lambda>n. n)") auto

text \<open>An optional string inside an f-string: \<open>None\<close> prints as \<open>None\<close>.\<close>

definition format_optional :: "ustring option \<Rightarrow> ustring" where
  "format_optional v = (case v of None \<Rightarrow> ustr ''None'' | Some s \<Rightarrow> s)"

text \<open>\<open>dict.get(key, default)\<close> on an insertion-ordered dictionary.\<close>

definition dict_get :: "('k \<times> 'v) list \<Rightarrow> 'k \<Rightarrow> 'v \<Rightarrow> 'v" where
  "dict_get d k dflt = (case map_of d k of None \<Rightarrow> dflt | Some v \<Rightarrow> v)"

text \<open>Writing a key of an insertion-ordered dictionary: an existing key keeps its place,
  a new key goes to the end.\<close>

fun dict_set :: "('k \<times> 'v) list \<Rightarrow> 'k \<Rightarrow> 'v \<Rightarrow> ('k \<times> 'v) list" where
  "dict_set [] k v = [(k, v)]"
| "dict_set ((k', v') # d) k v = (if k' = k then (k, v) # d else (k', v') # dict_set d k v)"

text \<open>A loop that appends one result per element and stops at the first raise.\<close>

fun try_map :: "('a \<Rightarrow> py_error + 'b) \<Rightarrow> 'a list \<Rightarrow> py_error + 'b list" where
  "try_map f [] = Inr []"
| "try_map f (x # xs) =
     (case f x of
        Inl e \<Rightarrow> Inl e
      | Inr y \<Rightarrow> (case try_map f xs of Inl e \<Rightarrow> Inl e | Inr ys \<Rightarrow> Inr (y # ys)))"

text \<open>A loop that extends the result by a list per element and stops at the first
  raise.\<close>

fun try_extend :: "('a \<Rightarrow> py_error + 'b list) \<Rightarrow> 'a list \<Rightarrow> py_error + 'b list" where
  "try_extend f [] = Inr []"
| "try_extend f (x # xs) =
     (case f x of
        Inl e \<Rightarrow> Inl e
      | Inr ys \<Rightarrow> (case try_extend f xs of Inl e \<Rightarrow> Inl e | Inr zs \<Rightarrow> Inr (ys @ zs)))"

section \<open>Risk aggregator and recommender\<close>

text \<open>The dictionary \<open>severity_weights\<close> of \<open>_calculate_risk_score\<close>.\<close>

definition severity_weights :: "(ustring \<times> int) list" where
  "severity_weights =
     [(ustr ''critical'', 30), (ustr ''high'', 20), (ustr ''medium'', 10), (ustr ''low'', 3)]"

text \<open>\<open>GuidelinesAnalyzer._calculate_risk_score\<close>.\<close>

definition calculate_risk_score :: "ContentFlag list \<Rightarrow> int" where
  "calculate_risk_score fs =
     (if fs = [] then 0
      else let total = sum_list (map (\<lambda>flag. dict_get severity_weights (ContentFlag.severity flag) 0) fs)
           in min 100 total)"

text \<open>\<open>GuidelinesAnalyzer._determine_risk_level\<close>.\<close>

definition determine_risk_level :: "int \<Rightarrow> ustring" where
  "determine_risk_level score =
     (if score \<ge> 70 then ustr ''critical''
      else if score \<ge> 40 then ustr ''high''
      else if score \<ge> 20 then ustr ''medium''
      else ustr ''low'')"

text \<open>\<open>GuidelinesAnalyzer._generate_recommendation\<close>: the list comprehension is a
  filter, and a non-empty list is true.\<close>

definition critical_categories :: "ustring list" where
  "critical_categories =
     [ustr ''violence_advocacy'', ustr ''hate_speech'', ustr ''despot_admiration'']"

definition generate_recommendation :: "AnalysisResult \<Rightarrow> ustring" where
  "generate_recommendation result =
     (let critical_flags =
            filter (\<lambda>f. ContentFlag.severity f = ustr ''critical'' \<or>
                        (ContentFlag.severity f = ustr ''high'' \<and>
                         ContentFlag.category f \<in> set critical_categories))
                   (flags result)
      in if critical_flags \<noteq> [] then ustr ''reject''
         else if risk_level result \<in> set [ustr ''high'', ustr ''critical'']
              then ustr ''pending_review''
         else if risk_level result = ustr ''medium'' then ustr ''pending_review''
         else if risk_score result < 10 \<and>
                 \<not> list_ex (\<lambda>f. ContentFlag.severity f \<in> set [ustr ''high'', ustr ''critical''])
                            (flags result)
              then ustr ''approve''
         else ustr ''pending_review'')"

section \<open>Pattern detector\<close>

text \<open>The pattern database \<open>self.keywords\<close>: category to list of (pattern, severity),
  in insertion order. The field is named \<open>keyword_database\<close>, since \<open>keywords\<close> is
  reserved.\<close>

type_synonym keyword_db = "(ustring \<times> (ustring \<times> ustring) list) list"

record KeywordAnalyzer =
  keyword_database :: keyword_db

text \<open>\<open>analyze_text\<close>, lines 208 to 217: the context of a match with span
  \<open>(m_start, m_end)\<close>, cut from the original text.\<close>

definition extract_context :: "ustring \<Rightarrow> nat \<Rightarrow> nat \<Rightarrow> ustring" where
  "extract_context text m_start m_end =
     (let start = nat (max 0 (int m_start - 50));
          stop = min (length text) (m_end + 50);
          ctx = slice text start stop;
          ctx = (if start > 0 then ustr ''...'' @ ctx else ctx);
          ctx = (if stop < length text then ctx @ ustr ''...'' else ctx)
      in ctx)"

text \<open>\<open>analyze_text\<close>, lines 219 to 225: the match record; \<open>match.group(0)\<close> is the
  matched part of the lowered text.\<close>

definition keyword_match ::
  "ustring \<Rightarrow> ustring \<Rightarrow> ustring \<Rightarrow> ustring \<Rightarrow> nat \<times> nat \<Rightarrow> KeywordMatch" where
  "keyword_match text text_lower cat sev span =
     \<lparr>keyword = slice text_lower (fst span) (snd span),
      category = cat,
      severity = sev,
      match_context = extract_context text (fst span) (snd span),
      position = fst span\<rparr>"

text \<open>\<open>analyze_text\<close>, lines 206 to 228: the \<open>try\<close> block for one pattern. The handler
  catches \<open>re.error\<close> only: it continues with the next pattern and nothing is added. Any
  other exception of the engine leaves the function.\<close>

definition scan_pattern ::
  "python \<Rightarrow> ustring \<Rightarrow> ustring \<Rightarrow> ustring \<Rightarrow> ustring \<times> ustring
     \<Rightarrow> py_error + KeywordMatch list" where
  "scan_pattern py text text_lower cat entry =
     (case re_finditer py (fst entry) text_lower of
        Inl e \<Rightarrow> if e = ReError then Inr [] else Inl e
      | Inr spans \<Rightarrow> Inr (map (keyword_match text text_lower cat (snd entry)) spans))"

text \<open>\<open>analyze_text\<close>, lines 201 to 205: one category of \<open>categories_to_check\<close>; a
  category that the database does not have is passed over.\<close>

definition scan_category ::
  "python \<Rightarrow> keyword_db \<Rightarrow> ustring \<Rightarrow> ustring \<Rightarrow> ustring \<Rightarrow> py_error + KeywordMatch list" where
  "scan_category py db text text_lower cat =
     (case map_of db cat of
        None \<Rightarrow> Inr []
      | Some entries \<Rightarrow> try_extend (scan_pattern py text text_lower cat) entries)"

text \<open>\<open>analyze_text\<close>, line 199: \<open>categories or list(self.keywords.keys())\<close>; an
  empty list of categories is false and reads as all categories.\<close>

definition categories_to_check :: "KeywordAnalyzer \<Rightarrow> ustring list option \<Rightarrow> ustring list" where
  "categories_to_check self categories =
     (case categories of
        None \<Rightarrow> map fst (keyword_database self)
      | Some cs \<Rightarrow> if cs = [] then map fst (keyword_database self) else cs)"

text \<open>\<open>KeywordAnalyzer.analyze_text\<close>. The loops only append to \<open>matches\<close>, so the
  result is the concatenation over categories and patterns in loop order, unless a
  pattern raises.\<close>

definition analyze_text ::
  "python \<Rightarrow> KeywordAnalyzer \<Rightarrow> ustring \<Rightarrow> ustring list option
     \<Rightarrow> py_error + KeywordMatch list" where
  "analyze_text py self text categories =
     (if text = [] then Inr []
      else let text_lower = str_lower py text
           in try_extend (scan_category py (keyword_database self) text text_lower)
                         (categories_to_check self categories))"

section \<open>Regime classification table\<close>

text \<open>\<open>data/regime_classifications.py\<close>: the country lists by region and class, and
  their aggregates. A letter outside ASCII is written as its code point.\<close>

definition AMERICAS_DEMOCRATIC :: "ustring list" where
  "AMERICAS_DEMOCRATIC =
    [ustr ''Argentina'', ustr ''Belize'', ustr ''Brazil'', ustr ''Canada'', ustr ''Chile'',
     ustr ''Colombia'', ustr ''Costa Rica'', ustr ''Dominican Republic'', ustr ''Ecuador'',
     ustr ''Guatemala'', ustr ''Guyana'', ustr ''Jamaica'', ustr ''Mexico'',
     ustr ''Panama'', ustr ''Paraguay'', ustr ''Peru'', ustr ''Suriname'',
     ustr ''United States of America'', ustr ''United States'', ustr ''USA'',
     ustr ''Uruguay'', ustr ''Saint Kitts and Nevis'', ustr ''Dominica'',
     ustr ''Antigua and Barbuda'', ustr ''Saint Vincent and the Grenadines'',
     ustr ''Grenada'', ustr ''St Lucia'', ustr ''Saint Lucia'', ustr ''Barbados'',
     ustr ''Bahamas'', ustr ''Trinidad and Tobago'']"

definition AMERICAS_HYBRID_AUTHORITARIAN :: "ustring list" where
  "AMERICAS_HYBRID_AUTHORITARIAN =
    [ustr ''Bolivia'', ustr ''El Salvador'', ustr ''Honduras'']"

definition AMERICAS_FULLY_AUTHORITARIAN :: "ustring list" where
  "AMERICAS_FULLY_AUTHORITARIAN =
    [ustr ''Cuba'', ustr ''Nicaragua'', ustr ''Venezuela'']"

definition AMERICAS_UNCLASSIFIED :: "ustring list" where
  "AMERICAS_UNCLASSIFIED =
    [ustr ''Haiti'']"

definition MENA_DEMOCRATIC :: "ustring list" where
  "MENA_DEMOCRATIC =
    [ustr ''Israel'']"

definition MENA_HYBRID_AUTHORITARIAN :: "ustring list" where
  "MENA_HYBRID_AUTHORITARIAN =
    [ustr ''Iraq'', ustr ''Lebanon'']"

definition MENA_FULLY_AUTHORITARIAN :: "ustring list" where
  "MENA_FULLY_AUTHORITARIAN =
    [ustr ''Algeria'', ustr ''Bahrain'', ustr ''Egypt'', ustr ''Iran'', ustr ''Jordan'',
     ustr ''Kuwait'', ustr ''Libya'', ustr ''Morocco'', ustr ''Oman'', ustr ''Qatar'',
     ustr ''Saudi Arabia'', ustr ''Syria'', ustr ''Tunisia'',
     ustr ''United Arab Emirates'', ustr ''UAE'', ustr ''Yemen'']"

definition EUROPE_DEMOCRATIC :: "ustring list" where
  "EUROPE_DEMOCRATIC =
    [ustr ''Albania'', ustr ''Armenia'', ustr ''Austria'', ustr ''Belgium'',
     ustr ''Bosnia and Herzegovina'', ustr ''Bulgaria'', ustr ''Croatia'',
     ustr ''Czech Republic'', ustr ''Czechia'', ustr ''Cyprus'', ustr ''Denmark'',
     ustr ''Estonia'', ustr ''Finland'', ustr ''France'', ustr ''Germany'',
     ustr ''Greece'', ustr ''Iceland'', ustr ''Ireland'', ustr ''Italy'', ustr ''Latvia'',
     ustr ''Lithuania'', ustr ''Luxembourg'', ustr ''Moldova'', ustr ''Montenegro'',
     ustr ''Kosovo'', ustr ''North Macedonia'', ustr ''Netherlands'', ustr ''Norway'',
     ustr ''Poland'', ustr ''Portugal'', ustr ''Romania'', ustr ''Sweden'',
     ustr ''Switzerland'', ustr ''Slovakia'', ustr ''Slovenia'', ustr ''Spain'',
     ustr ''Ukraine'', ustr ''United Kingdom'', ustr ''UK'', ustr ''Britain'',
     ustr ''Great Britain'', ustr ''San Marino'', ustr ''Monaco'', ustr ''Liechtenstein'',
     ustr ''Andorra'', ustr ''Malta'']"

definition EUROPE_HYBRID_AUTHORITARIAN :: "ustring list" where
  "EUROPE_HYBRID_AUTHORITARIAN =
    [ustr ''Georgia'', ustr ''Hungary'', ustr ''Serbia'']"

definition EUROPE_FULLY_AUTHORITARIAN :: "ustring list" where
  "EUROPE_FULLY_AUTHORITARIAN =
    [ustr ''Azerbaijan'', ustr ''Belarus'', ustr ''Kazakhstan'', ustr ''Russia'',
     ustr ''Russian Federation'', ustr ''Tajikistan'', ustr ''Turkmenistan'',
     ustr ''Turkey'', ustr ''Uzbekistan'', ustr ''Kyrgyzstan'']"

definition ASIA_PACIFIC_DEMOCRATIC :: "ustring list" where
  "ASIA_PACIFIC_DEMOCRATIC =
    [ustr ''Australia'', ustr ''Bhutan'', ustr ''Japan'', ustr ''Mongolia'',
     ustr ''Nepal'', ustr ''New Zealand'', ustr ''Papua New Guinea'', ustr ''South Korea'',
     ustr ''Republic of Korea'', ustr ''Taiwan'', ustr ''Timor-Leste'',
     ustr ''East Timor'', ustr ''Sri Lanka'', ustr ''Micronesia'', ustr ''Tuvalu'',
     ustr ''Nauru'', ustr ''Palau'', ustr ''Marshall Islands'', ustr ''Tonga'',
     ustr ''Kiribati'', ustr ''Samoa'', ustr ''Vanuatu'', ustr ''Solomon Islands'']"

definition ASIA_PACIFIC_HYBRID_AUTHORITARIAN :: "ustring list" where
  "ASIA_PACIFIC_HYBRID_AUTHORITARIAN =
    [ustr ''Bangladesh'', ustr ''Fiji'', ustr ''India'', ustr ''Malaysia'',
     ustr ''Maldives'', ustr ''Pakistan'', ustr ''Philippines'', ustr ''Singapore'',
     ustr ''Thailand'', ustr ''Indonesia'']"

definition ASIA_PACIFIC_FULLY_AUTHORITARIAN :: "ustring list" where
  "ASIA_PACIFIC_FULLY_AUTHORITARIAN =
    [ustr ''Afghanistan'', ustr ''Brunei'', ustr ''Burma'', ustr ''Myanmar'',
     ustr ''Cambodia'', ustr ''China'', ustr ''PRC'', ustr ''People's Republic of China'',
     ustr ''Laos'', ustr ''North Korea'', ustr ''DPRK'',
     ustr ''Democratic People's Republic of Korea'', ustr ''Vietnam'']"

definition AFRICA_DEMOCRATIC :: "ustring list" where
  "AFRICA_DEMOCRATIC =
    [ustr ''Botswana'', ustr ''Ghana'', ustr ''Lesotho'', ustr ''Liberia'',
     ustr ''Namibia'', ustr ''South Africa'', ustr ''Cape Verde'', ustr ''Cabo Verde'',
     ustr ''Mauritius'', ustr ''Sao Tome and Principe'', ustr ''Seychelles'']"

definition AFRICA_HYBRID_AUTHORITARIAN :: "ustring list" where
  "AFRICA_HYBRID_AUTHORITARIAN =
    [ustr ''Benin'', ustr ''C'' @ [244] @ ustr ''te d'Ivoire'', ustr ''Cote d'Ivoire'',
     ustr ''Ivory Coast'', ustr ''The Gambia'', ustr ''Gambia'', ustr ''Kenya'',
     ustr ''Madagascar'', ustr ''Malawi'', ustr ''Senegal'', ustr ''Sierra Leone'',
     ustr ''Togo'', ustr ''Zambia'']"

definition AFRICA_FULLY_AUTHORITARIAN :: "ustring list" where
  "AFRICA_FULLY_AUTHORITARIAN =
    [ustr ''Angola'', ustr ''Burundi'', ustr ''Burkina Faso'', ustr ''Cameroon'',
     ustr ''Central African Republic'', ustr ''CAR'', ustr ''Chad'', ustr ''Comoros'',
     ustr ''Democratic Republic of Congo'', ustr ''DRC'', ustr ''DR Congo'',
     ustr ''Congo-Kinshasa'', ustr ''Djibouti'', ustr ''Equatorial Guinea'',
     ustr ''Eritrea'', ustr ''Ethiopia'', ustr ''Gabon'', ustr ''Guinea'',
     ustr ''Guinea-Bissau'', ustr ''Mali'', ustr ''Mauritania'', ustr ''Mozambique'',
     ustr ''Niger'', ustr ''Nigeria'', ustr ''Republic of Congo'',
     ustr ''Congo-Brazzaville'', ustr ''Rwanda'', ustr ''Somalia'', ustr ''South Sudan'',
     ustr ''Sudan'', ustr ''Swaziland'', ustr ''Eswatini'', ustr ''Uganda'',
     ustr ''Tanzania'', ustr ''Zimbabwe'']"

definition ALL_DEMOCRATIC :: "ustring list" where
  "ALL_DEMOCRATIC =
     AMERICAS_DEMOCRATIC @
     MENA_DEMOCRATIC @
     EUROPE_DEMOCRATIC @
     ASIA_PACIFIC_DEMOCRATIC @
     AFRICA_DEMOCRATIC"

definition ALL_HYBRID_AUTHORITARIAN :: "ustring list" where
  "ALL_HYBRID_AUTHORITARIAN =
     AMERICAS_HYBRID_AUTHORITARIAN @
     MENA_HYBRID_AUTHORITARIAN @
     EUROPE_HYBRID_AUTHORITARIAN @
     ASIA_PACIFIC_HYBRID_AUTHORITARIAN @
     AFRICA_HYBRID_AUTHORITARIAN"

definition ALL_FULLY_AUTHORITARIAN :: "ustring list" where
  "ALL_FULLY_AUTHORITARIAN =
     AMERICAS_FULLY_AUTHORITARIAN @
     MENA_FULLY_AUTHORITARIAN @
     EUROPE_FULLY_AUTHORITARIAN @
     ASIA_PACIFIC_FULLY_AUTHORITARIAN @
     AFRICA_FULLY_AUTHORITARIAN"

definition ALL_AUTHORITARIAN :: "ustring list" where
  "ALL_AUTHORITARIAN =
     ALL_HYBRID_AUTHORITARIAN @
     ALL_FULLY_AUTHORITARIAN"

definition ALL_UNCLASSIFIED :: "ustring list" where
  "ALL_UNCLASSIFIED =
     AMERICAS_UNCLASSIFIED"


text \<open>The dictionary that \<open>get_regime_classification\<close> returns.\<close>

record RegimeClassification =
  classification :: ustring
  region :: ustring
  is_authoritarian :: bool

text \<open>\<open>_get_region\<close>.\<close>

definition get_region :: "ustring \<Rightarrow> ustring \<Rightarrow> ustring" where
  "get_region country classification_type =
     (if classification_type = ustr ''democratic'' then
        (if country \<in> set AMERICAS_DEMOCRATIC then ustr ''americas''
         else if country \<in> set MENA_DEMOCRATIC then ustr ''middle_east_north_africa''
         else if country \<in> set EUROPE_DEMOCRATIC then ustr ''europe_central_asia''
         else if country \<in> set ASIA_PACIFIC_DEMOCRATIC then ustr ''asia_pacific''
         else if country \<in> set AFRICA_DEMOCRATIC then ustr ''africa''
         else ustr ''unknown'')
      else if classification_type = ustr ''hybrid'' then
        (if country \<in> set AMERICAS_HYBRID_AUTHORITARIAN then ustr ''americas''
         else if country \<in> set MENA_HYBRID_AUTHORITARIAN then ustr ''middle_east_north_africa''
         else if country \<in> set EUROPE_HYBRID_AUTHORITARIAN then ustr ''europe_central_asia''
         else if country \<in> set ASIA_PACIFIC_HYBRID_AUTHORITARIAN then ustr ''asia_pacific''
         else if country \<in> set AFRICA_HYBRID_AUTHORITARIAN then ustr ''africa''
         else ustr ''unknown'')
      else if classification_type = ustr ''authoritarian'' then
        (if country \<in> set AMERICAS_FULLY_AUTHORITARIAN then ustr ''americas''
         else if country \<in> set MENA_FULLY_AUTHORITARIAN then ustr ''middle_east_north_africa''
         else if country \<in> set EUROPE_FULLY_AUTHORITARIAN then ustr ''europe_central_asia''
         else if country \<in> set ASIA_PACIFIC_FULLY_AUTHORITARIAN then ustr ''asia_pacific''
         else if country \<in> set AFRICA_FULLY_AUTHORITARIAN then ustr ''africa''
         else ustr ''unknown'')
      else ustr ''unknown'')"

text \<open>\<open>get_regime_classification\<close>.\<close>

definition get_regime_classification :: "ustring \<Rightarrow> RegimeClassification" where
  "get_regime_classification country =
     (let country_normalized = strip country
      in if country_normalized \<in> set ALL_DEMOCRATIC then
           \<lparr>classification = ustr ''democratic'',
            region = get_region country_normalized (ustr ''democratic''),
            is_authoritarian = False\<rparr>
         else if country_normalized \<in> set ALL_HYBRID_AUTHORITARIAN then
           \<lparr>classification = ustr ''hybrid_authoritarian'',
            region = get_region country_normalized (ustr ''hybrid''),
            is_authoritarian = True\<rparr>
         else if country_normalized \<in> set ALL_FULLY_AUTHORITARIAN then
           \<lparr>classification = ustr ''fully_authoritarian'',
            region = get_region country_normalized (ustr ''authoritarian''),
            is_authoritarian = True\<rparr>
         else if country_normalized \<in> set ALL_UNCLASSIFIED then
           \<lparr>classification = ustr ''unclassified'', region = ustr ''americas'',
            is_authoritarian = False\<rparr>
         else
           \<lparr>classification = ustr ''unknown'', region = ustr ''unknown'',
            is_authoritarian = False\<rparr>)"

text \<open>\<open>is_authoritarian_regime\<close>.\<close>

definition is_authoritarian_regime :: "ustring \<Rightarrow> bool" where
  "is_authoritarian_regime country = is_authoritarian (get_regime_classification country)"

text \<open>The lists of leaders and of organisations.\<close>

definition KNOWN_AUTHORITARIAN_LEADERS :: "ustring list" where
  "KNOWN_AUTHORITARIAN_LEADERS =
    [ustr ''Xi Jinping'', ustr ''Kim Jong Un'', ustr ''Kim Jong-un'',
     ustr ''Vladimir Putin'', ustr ''Putin'', ustr ''Alexander Lukashenko'',
     ustr ''Lukashenko'', ustr ''Bashar al-Assad'', ustr ''Assad'',
     ustr ''Nicol'' @ [225] @ ustr ''s Maduro'', ustr ''Nicolas Maduro'', ustr ''Maduro'',
     ustr ''Daniel Ortega'', ustr ''Ortega'',
     ustr ''Miguel D'' @ [237] @ ustr ''az-Canel'', ustr ''D'' @ [237] @ ustr ''az-Canel'',
     ustr ''Diaz-Canel'', ustr ''Ayatollah Khamenei'', ustr ''Khamenei'',
     ustr ''Mohammed bin Salman'', ustr ''MBS'', ustr ''Abdel Fattah el-Sisi'',
     ustr ''el-Sisi'', ustr ''Sisi'', ustr ''Ilham Aliyev'', ustr ''Aliyev'',
     ustr ''Gurbanguly Berdimuhamedow'', ustr ''Serdar Berdimuhamedow'',
     ustr ''Emomali Rahmon'', ustr ''Islam Karimov'', ustr ''Shavkat Mirziyoyev'',
     ustr ''Hun Sen'', ustr ''Hun Manet'',
     ustr ''Recep Tayyip Erdo'' @ [287] @ ustr ''an'', ustr ''Erdogan'',
     ustr ''Paul Kagame'', ustr ''Kagame'', ustr ''Yoweri Museveni'', ustr ''Museveni'',
     ustr ''Isaias Afwerki'', ustr ''Teodoro Obiang'', ustr ''Obiang'', ustr ''Stalin'',
     ustr ''Joseph Stalin'', ustr ''Mao Zedong'', ustr ''Mao Tse-tung'', ustr ''Mao'',
     ustr ''Adolf Hitler'', ustr ''Hitler'', ustr ''Pol Pot'', ustr ''Fidel Castro'',
     ustr ''Castro'', ustr ''Muammar Gaddafi'', ustr ''Gaddafi'', ustr ''Qaddafi'',
     ustr ''Saddam Hussein'', ustr ''Saddam'', ustr ''Robert Mugabe'', ustr ''Mugabe'',
     ustr ''Idi Amin'', ustr ''Pinochet'', ustr ''Augusto Pinochet'',
     ustr ''Francisco Franco'', ustr ''Franco'', ustr ''Benito Mussolini'',
     ustr ''Mussolini'', ustr ''Kim Il-sung'', ustr ''Kim Jong-il'',
     ustr ''Hugo Ch'' @ [225] @ ustr ''vez'', ustr ''Hugo Chavez'', ustr ''Chavez'']"

definition AUTHORITARIAN_ENTITIES :: "ustring list" where
  "AUTHORITARIAN_ENTITIES =
    [ustr ''Chinese Communist Party'', ustr ''CCP'', ustr ''CPC'',
     ustr ''Communist Party of China'', ustr ''United Russia'', ustr ''Kremlin'',
     ustr ''FSB'', ustr ''KGB'', ustr ''IRGC'', ustr ''Islamic Revolutionary Guard Corps'',
     ustr ''Hezbollah'', ustr ''Hamas'', ustr ''Wagner Group'', ustr ''Colectivos'',
     ustr ''Basij'']"

section \<open>Authoritarian mentions\<close>

text \<open>
  \<open>check_for_authoritarian_mentions\<close> searches with patterns of two fixed shapes, whose
  matches are spelled out here. \<open>re.finditer\<close> scans from the left, reports a match at
  the first position where the pattern matches and resumes at the end of that match
  (one character further after an empty match). \<open>hit pos\<close> says whether the pattern
  matches at \<open>pos\<close>, \<open>n\<close> is the length of a match and \<open>len\<close> the length of the subject.
\<close>

function scan_from :: "(nat \<Rightarrow> bool) \<Rightarrow> nat \<Rightarrow> nat \<Rightarrow> nat \<Rightarrow> (nat \<times> nat) list" where
  "scan_from hit n len pos =
     (if pos > len then []
      else if hit pos then (pos, pos + n) # scan_from hit n len (pos + max 1 n)
      else scan_from hit n len (pos + 1))"
  by pat_completeness auto
termination
  by (relation "measure (\<lambda>(hit, n, len, pos). len + 1 - pos)") auto

text \<open>The literal \<open>lit\<close> stands in \<open>s\<close> at \<open>pos\<close>.\<close>

definition occurs_at :: "ustring \<Rightarrow> ustring \<Rightarrow> nat \<Rightarrow> bool" where
  "occurs_at lit s pos = (slice s pos (pos + length lit) = lit)"

text \<open>\<open>\b\<close> at index \<open>i\<close> of \<open>s\<close>: exactly one of the characters before and after
  the index is a word character; beyond either end there is none.\<close>

definition word_boundary :: "(int \<Rightarrow> bool) \<Rightarrow> ustring \<Rightarrow> nat \<Rightarrow> bool" where
  "word_boundary is_word s i =
     ((0 < i \<and> i \<le> length s \<and> is_word (s ! (i - 1)))
        \<noteq> (i < length s \<and> is_word (s ! i)))"

text \<open>\<open>re.finditer(re.escape(lit), s)\<close>: the pattern matches exactly the literal.\<close>

definition finditer_literal :: "ustring \<Rightarrow> ustring \<Rightarrow> (nat \<times> nat) list" where
  "finditer_literal lit s = scan_from (occurs_at lit s) (length lit) (length s) 0"

text \<open>\<open>re.finditer(rf'\b{re.escape(lit)}\b', s)\<close>: the literal between two word
  boundaries.\<close>

definition finditer_word :: "(int \<Rightarrow> bool) \<Rightarrow> ustring \<Rightarrow> ustring \<Rightarrow> (nat \<times> nat) list" where
  "finditer_word is_word lit s =
     scan_from (\<lambda>pos. occurs_at lit s pos \<and> word_boundary is_word s pos
                       \<and> word_boundary is_word s (pos + length lit))
               (length lit) (length s) 0"

text \<open>The match record of one mention: the keyword is the name as listed, the context
  carries no ellipsis.\<close>

definition mention_match ::
  "ustring \<Rightarrow> ustring \<Rightarrow> ustring \<Rightarrow> ustring \<Rightarrow> nat \<times> nat \<Rightarrow> KeywordMatch" where
  "mention_match text name cat sev span =
     (let start = nat (max 0 (int (fst span) - 50));
          stop = min (length text) (snd span + 50)
      in \<lparr>keyword = name, category = cat, severity = sev,
          match_context = slice text start stop, position = fst span\<rparr>)"

text \<open>\<open>KeywordAnalyzer.check_for_authoritarian_mentions\<close>: three loops in a row, each
  appending to \<open>matches\<close>.\<close>

definition check_for_authoritarian_mentions :: "python \<Rightarrow> ustring \<Rightarrow> KeywordMatch list" where
  "check_for_authoritarian_mentions py text =
     (let text_lower = str_lower py text;
          leader_matches =
            concat (map (\<lambda>leader.
                      map (mention_match text leader (ustr ''authoritarian_mention'')
                             (ustr ''medium''))
                          (finditer_literal (str_lower py leader) text_lower))
                    KNOWN_AUTHORITARIAN_LEADERS);
          entity_matches =
            concat (map (\<lambda>entity.
                      map (mention_match text entity (ustr ''authoritarian_entity_mention'')
                             (ustr ''medium''))
                          (finditer_literal (str_lower py entity) text_lower))
                    AUTHORITARIAN_ENTITIES);
          country_matches =
            concat (map (\<lambda>country.
                      map (mention_match text country (ustr ''authoritarian_country_mention'')
                             (ustr ''low''))
                          (finditer_word (re_word py) (str_lower py country) text_lower))
                    (ALL_FULLY_AUTHORITARIAN @ ALL_HYBRID_AUTHORITARIAN))
      in leader_matches @ entity_matches @ country_matches)"

section \<open>Guideline flag generator\<close>

text \<open>\<open>GuidelinesAnalyzer.GUIDELINES\<close>: a dictionary of dictionaries.\<close>

definition GUIDELINES :: "(ustring \<times> (ustring \<times> ustring) list) list" where
  "GUIDELINES =
     [
      (ustr ''authoritarian_connection'',
        [(ustr ''title'', ustr ''Authoritarian Regime Connection''),
         (ustr ''description'', ustr ''Individual is from and/or doing work relevant to a country with an authoritarian regime.''),
         (ustr ''reference'', ustr ''Guideline 1'')]),
      (ustr ''democracy_criticism'',
        [(ustr ''title'', ustr ''Unqualified Democracy Criticism''),
         (ustr ''description'', ustr ''Engaged in unqualified criticism of democracies, making blunt equivalences between democracies and non-democracies.''),
         (ustr ''reference'', ustr ''Guideline 2'')]),
      (ustr ''political_partisanship'',
        [(ustr ''title'', ustr ''Excessive Political Partisanship''),
         (ustr ''description'', ustr ''Displayed excessive political partisanship when dealing with democratic governments on social media.''),
         (ustr ''reference'', ustr ''Guideline 3'')]),
      (ustr ''violence_advocacy'',
        [(ustr ''title'', ustr ''Violence Advocacy''),
         (ustr ''description'', ustr ''Has used or advocated for the use of violence as a valid method to fight government oppression.''),
         (ustr ''reference'', ustr ''Guideline 4'')]),
      (ustr ''hate_speech'',
        [(ustr ''title'', ustr ''Hate Speech / Intolerance''),
         (ustr ''description'', ustr ''Expressed xenophobic, homophobic, or other intolerant views or opinions, or displayed clear instances of hate speech.''),
         (ustr ''reference'', ustr ''Guideline 5'')]),
      (ustr ''regime_praise'',
        [(ustr ''title'', ustr ''Authoritarian Regime Relationship/Praise''),
         (ustr ''description'', ustr ''Has a relationship with, or expressed praise for, hybrid authoritarian or fully authoritarian regimes.''),
         (ustr ''reference'', ustr ''Guideline 6'')]),
      (ustr ''despot_admiration'',
        [(ustr ''title'', ustr ''Despot/Dictator Admiration''),
         (ustr ''description'', ustr ''Expressed admiration for despots, dictators, or tyrants.''),
         (ustr ''reference'', ustr ''Guideline 7'')]),
      (ustr ''financial_dealings'',
        [(ustr ''title'', ustr ''Financial Dealings with Dictatorships''),
         (ustr ''description'', ustr ''Engaged in significant financial or commercial dealings with dictatorships or their instrumentalities.''),
         (ustr ''reference'', ustr ''Guideline 8'')]),
      (ustr ''unprofessional'',
        [(ustr ''title'', ustr ''Lack of Professionalism''),
         (ustr ''description'', ustr ''Displays a lack of professionalism.''),
         (ustr ''reference'', ustr ''Guideline 9'')]),
      (ustr ''criminal_record'',
        [(ustr ''title'', ustr ''Criminal Record''),
         (ustr ''description'', ustr ''Has been investigated for, charged with, or convicted of any type of crime.''),
         (ustr ''reference'', ustr ''Guideline 10'')]),
      (ustr ''sanctions'',
        [(ustr ''title'', ustr ''International Sanctions''),
         (ustr ''description'', ustr ''Subject to international sanctions.''),
         (ustr ''reference'', ustr ''Guideline 11'')]),
      (ustr ''business_concerns'',
        [(ustr ''title'', ustr ''Business Ownership Concerns''),
         (ustr ''description'', ustr ''Owner or operator of private companies that HRF should be aware of.''),
         (ustr ''reference'', ustr ''Guideline 12'')])]"

text \<open>The analyzer object: \<open>self.keyword_analyzer\<close> and \<open>self.strict_mode\<close>.\<close>

record GuidelinesAnalyzer =
  keyword_analyzer :: KeywordAnalyzer
  strict_mode :: bool

text \<open>\<open>GuidelinesAnalyzer._check_country\<close>.\<close>

definition check_country :: "ustring \<Rightarrow> ContentFlag list" where
  "check_country c =
     (let cls = get_regime_classification c
      in if classification cls = ustr ''fully_authoritarian'' then
           [\<lparr>ContentFlag.category = ustr ''authoritarian_connection'',
             ContentFlag.severity = ustr ''high'',
             ContentFlag.title = ustr ''From Fully Authoritarian Regime: '' @ c,
             ContentFlag.description =
               ustr ''The applicant is from '' @ c @
               ustr '', which is classified as a fully authoritarian regime.'',
             ContentFlag.evidence_snippet = None,
             ContentFlag.matched_keywords = [],
             ContentFlag.guideline_reference = Some (ustr ''Guideline 1''),
             ContentFlag.content_source = None,
             ContentFlag.content_url = None,
             ContentFlag.published_at = None\<rparr>]
         else if classification cls = ustr ''hybrid_authoritarian'' then
           [\<lparr>ContentFlag.category = ustr ''authoritarian_connection'',
             ContentFlag.severity = ustr ''medium'',
             ContentFlag.title = ustr ''From Hybrid Authoritarian Regime: '' @ c,
             ContentFlag.description =
               ustr ''The applicant is from '' @ c @
               ustr '', which is classified as a hybrid authoritarian regime.'',
             ContentFlag.evidence_snippet = None,
             ContentFlag.matched_keywords = [],
             ContentFlag.guideline_reference = Some (ustr ''Guideline 1''),
             ContentFlag.content_source = None,
             ContentFlag.content_url = None,
             ContentFlag.published_at = None\<rparr>]
         else [])"

text \<open>\<open>_analyze_content\<close>, lines 283 to 287: grouping the matches by category in a
  dictionary, categories in order of first occurrence.\<close>

fun group_matches ::
  "(ustring \<times> KeywordMatch list) list \<Rightarrow> KeywordMatch list
     \<Rightarrow> (ustring \<times> KeywordMatch list) list"
where
  "group_matches d [] = d"
| "group_matches d (m # ms) =
     (let d1 = (if map_of d (KeywordMatch.category m) = None
                then dict_set d (KeywordMatch.category m) [] else d);
          d2 = dict_set d1 (KeywordMatch.category m)
                 (dict_get d1 (KeywordMatch.category m) [] @ [m])
      in group_matches d2 ms)"

text \<open>\<open>_analyze_content\<close>, lines 292 to 297: the first severity of the fixed order
  that some match of the group has, \<open>low\<close> when none has.\<close>

definition severity_order :: "ustring list" where
  "severity_order = [ustr ''critical'', ustr ''high'', ustr ''medium'', ustr ''low'']"

definition highest_severity :: "KeywordMatch list \<Rightarrow> ustring" where
  "highest_severity category_matches =
     (case find (\<lambda>sev. list_ex (\<lambda>m. KeywordMatch.severity m = sev) category_matches)
                severity_order of
        None \<Rightarrow> ustr ''low''
      | Some sev \<Rightarrow> sev)"

text \<open>\<open>list.index\<close>; \<open>None\<close> when the element is not in the list.\<close>

fun list_index :: "'a list \<Rightarrow> 'a \<Rightarrow> nat option" where
  "list_index [] y = None"
| "list_index (x # xs) y =
     (if x = y then Some 0 else map_option Suc (list_index xs y))"

text \<open>The key function of line 300:
  \<open>severity_order.index(m.severity) if m.severity in severity_order else 99\<close>.\<close>

definition severity_key :: "KeywordMatch \<Rightarrow> nat" where
  "severity_key m =
     (case list_index severity_order (KeywordMatch.severity m) of
        Some i \<Rightarrow> i
      | None \<Rightarrow> 99)"

text \<open>Python's \<open>max(xs, key=f)\<close>: the first element whose key is the largest; it raises
  \<open>ValueError\<close> on an empty list.\<close>

fun max_by :: "('a \<Rightarrow> nat) \<Rightarrow> 'a \<Rightarrow> 'a list \<Rightarrow> 'a" where
  "max_by key best [] = best"
| "max_by key best (x # xs) = max_by key (if key x > key best then x else best) xs"

definition py_max :: "('a \<Rightarrow> nat) \<Rightarrow> 'a list \<Rightarrow> py_error + 'a" where
  "py_max key xs = (case xs of [] \<Rightarrow> Inl ValueError | x # rest \<Rightarrow> Inr (max_by key x rest))"

text \<open>\<open>GuidelinesAnalyzer._map_keyword_to_guideline\<close>.\<close>

definition map_keyword_to_guideline :: "ustring \<Rightarrow> ustring" where
  "map_keyword_to_guideline keyword_category =
     dict_get
       [(ustr ''violence_advocacy'', ustr ''violence_advocacy''),
        (ustr ''hate_speech'', ustr ''hate_speech''),
        (ustr ''regime_praise'', ustr ''regime_praise''),
        (ustr ''democracy_criticism'', ustr ''democracy_criticism''),
        (ustr ''despot_admiration'', ustr ''despot_admiration''),
        (ustr ''financial_dealings'', ustr ''financial_dealings''),
        (ustr ''unprofessional'', ustr ''unprofessional''),
        (ustr ''criminal_activity'', ustr ''criminal_record''),
        (ustr ''authoritarian_mention'', ustr ''regime_praise''),
        (ustr ''authoritarian_entity_mention'', ustr ''regime_praise''),
        (ustr ''authoritarian_country_mention'', ustr ''authoritarian_connection'')]
       keyword_category keyword_category"

text \<open>\<open>_analyze_content\<close>, lines 290 to 318: the flag of one group. The source is
  what the caller read from the item; it is \<open>None\<close> when the key \<open>platform\<close> holds
  \<open>None\<close>.\<close>

definition flag_for_group ::
  "ustring option \<Rightarrow> ustring option \<Rightarrow> ustring option \<Rightarrow> ustring \<times> KeywordMatch list
     \<Rightarrow> py_error + ContentFlag" where
  "flag_for_group source url pub grp =
     (let cat = fst grp;
          category_matches = snd grp;
          highest = highest_severity category_matches
      in case py_max severity_key category_matches of
           Inl e \<Rightarrow> Inl e
         | Inr best_match \<Rightarrow>
             (let guideline_category = map_keyword_to_guideline cat;
                  guideline = dict_get GUIDELINES guideline_category []
              in Inr \<lparr>ContentFlag.category = guideline_category,
                      ContentFlag.severity = highest,
                      ContentFlag.title =
                        dict_get guideline (ustr ''title'') (ustr ''Potential Issue: '' @ cat),
                      ContentFlag.description =
                        ustr ''Content may violate: ''
                          @ dict_get guideline (ustr ''description'') cat,
                      ContentFlag.evidence_snippet = Some (match_context best_match),
                      ContentFlag.matched_keywords = map keyword category_matches,
                      ContentFlag.guideline_reference = map_of guideline (ustr ''reference''),
                      ContentFlag.content_source = source,
                      ContentFlag.content_url = url,
                      ContentFlag.published_at = pub\<rparr>))"

text \<open>\<open>_analyze_content\<close>, lines 325 to 335: the informational flag of one mention in
  strict mode.\<close>

definition mention_flag ::
  "ustring option \<Rightarrow> ustring option \<Rightarrow> ustring option \<Rightarrow> KeywordMatch \<Rightarrow> ContentFlag" where
  "mention_flag source url pub mention =
     \<lparr>ContentFlag.category = ustr ''regime_praise'',
      ContentFlag.severity = ustr ''low'',
      ContentFlag.title = ustr ''Mentions '' @ keyword mention,
      ContentFlag.description =
        ustr ''Content mentions '' @ replace_underscores (KeywordMatch.category mention) @
        ustr '': '' @ keyword mention,
      ContentFlag.evidence_snippet = Some (match_context mention),
      ContentFlag.matched_keywords = [keyword mention],
      ContentFlag.guideline_reference = None,
      ContentFlag.content_source = source,
      ContentFlag.content_url = url,
      ContentFlag.published_at = pub\<rparr>"

text \<open>\<open>GuidelinesAnalyzer._analyze_content\<close>. An exception of \<open>analyze_text\<close> leaves
  the function.\<close>

definition analyze_content ::
  "python \<Rightarrow> GuidelinesAnalyzer \<Rightarrow> ustring \<Rightarrow> ustring option \<Rightarrow> ustring option
     \<Rightarrow> ustring option \<Rightarrow> py_error + ContentFlag list" where
  "analyze_content py self text source url pub =
     (case analyze_text py (keyword_analyzer self) text None of
        Inl e \<Rightarrow> Inl e
      | Inr matches \<Rightarrow>
          (let matches_by_category = group_matches [] matches
           in case try_map (flag_for_group source url pub) matches_by_category of
                Inl e \<Rightarrow> Inl e
              | Inr fs \<Rightarrow>
                  (let auth_mentions = check_for_authoritarian_mentions py text
                   in if auth_mentions \<noteq> [] \<and> strict_mode self
                      then Inr (fs @ map (mention_flag source url pub) (take 5 auth_mentions))
                      else Inr fs)))"

section \<open>Summary and applicant analysis\<close>

text \<open>The counting loops of \<open>_generate_summary\<close>:
  \<open>counts[k] = counts.get(k, 0) + 1\<close> for each key in turn.\<close>

fun count_keys :: "(ustring \<times> nat) list \<Rightarrow> ustring list \<Rightarrow> (ustring \<times> nat) list" where
  "count_keys d [] = d"
| "count_keys d (k # ks) = count_keys (dict_set d k (dict_get d k 0 + 1)) ks"

text \<open>\<open>GuidelinesAnalyzer._generate_summary\<close>. \<open>severity_counts.get('critical')\<close> is
  true when the key is there, since every stored count is at least 1.\<close>

definition generate_summary :: "python \<Rightarrow> AnalysisResult \<Rightarrow> ustring" where
  "generate_summary py result =
     (if flags result = [] then
        ustr ''No concerning content found. Applicant appears to meet vetting guidelines.''
      else
        (let severity_counts = count_keys [] (map ContentFlag.severity (flags result));
             category_counts = count_keys [] (map ContentFlag.category (flags result));
             part_total =
               [ustr ''Analysis found '' @ str_nat (length (flags result))
                  @ ustr '' potential issue(s).''];
             part_critical =
               (case map_of severity_counts (ustr ''critical'') of
                  None \<Rightarrow> []
                | Some n \<Rightarrow> if n = 0 then []
                            else [ustr ''CRITICAL: '' @ str_nat n
                                    @ ustr '' critical issue(s) found.'']);
             part_high =
               (case map_of severity_counts (ustr ''high'') of
                  None \<Rightarrow> []
                | Some n \<Rightarrow> if n = 0 then []
                            else [ustr ''HIGH: '' @ str_nat n
                                    @ ustr '' high-severity issue(s) found.'']);
             category_list =
               join (ustr '', '')
                 (map (\<lambda>cat. dict_get (dict_get GUIDELINES cat []) (ustr ''title'') cat)
                      (map fst category_counts));
             summary_parts =
               part_total @ part_critical @ part_high @
               [ustr ''Categories: '' @ category_list,
                ustr ''Risk Level: '' @ str_upper py (risk_level result),
                ustr ''Recommendation: ''
                  @ str_upper py (replace_underscores (recommendation result))]
         in join (ustr '' '') summary_parts))"

text \<open>\<open>analyze_applicant\<close>, lines 212 to 223: one content item. An item whose text is
  missing or empty is passed over. \<open>item.get('platform', 'unknown')\<close> is \<open>unknown\<close> for
  an absent key and \<open>None\<close> for a key that holds \<open>None\<close>.\<close>

definition content_item_flags ::
  "python \<Rightarrow> GuidelinesAnalyzer \<Rightarrow> ContentItem \<Rightarrow> py_error + ContentFlag list" where
  "content_item_flags py self item =
     (let text = (case item_text_content item of None \<Rightarrow> [] | Some t \<Rightarrow> t)
      in if text = [] then Inr []
         else analyze_content py self text
                (get_or (item_platform item) (Some (ustr ''unknown'')))
                (item_url item) (item_published_at item))"

text \<open>\<open>analyze_applicant\<close>, lines 227 to 235: one social profile. The source is the
  f-string \<open>{platform}_bio\<close>, in which a platform \<open>None\<close> prints as \<open>None\<close>.\<close>

definition profile_flags ::
  "python \<Rightarrow> GuidelinesAnalyzer \<Rightarrow> SocialProfile \<Rightarrow> py_error + ContentFlag list" where
  "profile_flags py self profile =
     (let b = (case profile_bio profile of None \<Rightarrow> [] | Some t \<Rightarrow> t)
      in if b = [] then Inr []
         else analyze_content py self b
                (Some (format_optional (get_or (profile_platform profile) (Some (ustr ''unknown'')))
                         @ ustr ''_bio''))
                (profile_url profile) None)"

text \<open>\<open>GuidelinesAnalyzer.analyze_applicant\<close>; \<open>now\<close> is the reading of the clock.\<close>

definition analyze_applicant ::
  "python \<Rightarrow> GuidelinesAnalyzer \<Rightarrow> nat \<Rightarrow> ApplicantData \<Rightarrow> ContentItem list
     \<Rightarrow> SocialProfile list option \<Rightarrow> py_error + AnalysisResult" where
  "analyze_applicant py self now applicant_data content_items social_profiles =
     (let country_flags =
            (case data_country applicant_data of
               None \<Rightarrow> []
             | Some c \<Rightarrow> if c = [] then [] else check_country c)
      in case try_extend (content_item_flags py self) content_items of
           Inl e \<Rightarrow> Inl e
         | Inr content_flags \<Rightarrow>
             (case try_extend (profile_flags py self)
                     (case social_profiles of None \<Rightarrow> [] | Some ps \<Rightarrow> ps) of
                Inl e \<Rightarrow> Inl e
              | Inr bio_flags \<Rightarrow>
                  (let r0 = \<lparr>applicant_id = data_id applicant_data,
                             total_content_items = length content_items,
                             flags = country_flags @ content_flags @ bio_flags,
                             risk_score = 0, risk_level = ustr ''low'',
                             recommendation = ustr ''pending_review'',
                             analyzed_at = now, summary = []\<rparr>;
                       r1 = r0\<lparr>risk_score := calculate_risk_score (flags r0)\<rparr>;
                       r2 = r1\<lparr>risk_level := determine_risk_level (risk_score r1)\<rparr>;
                       r3 = r2\<lparr>recommendation := generate_recommendation r2\<rparr>;
                       r4 = r3\<lparr>summary := generate_summary py r3\<rparr>
                   in Inr r4)))"

section \<open>Notions used in the statements\<close>

text \<open>The order \<open>low < medium < high < critical\<close> on risk levels, as a rank.\<close>

definition level_rank :: "ustring \<Rightarrow> nat" where
  "level_rank l =
     (if l = ustr ''low'' then 0 else if l = ustr ''medium'' then 1
      else if l = ustr ''high'' then 2 else if l = ustr ''critical'' then 3 else 4)"

text \<open>The per-flag weight as the specification words it.\<close>

definition flag_weight :: "ContentFlag \<Rightarrow> int" where
  "flag_weight f =
     (if ContentFlag.severity f = ustr ''critical'' then 30
      else if ContentFlag.severity f = ustr ''high'' then 20
      else if ContentFlag.severity f = ustr ''medium'' then 10
      else if ContentFlag.severity f = ustr ''low'' then 3
      else 0)"

text \<open>A flag with the given category and severity and nothing else filled in, for
  concrete examples.\<close>

definition mk_flag :: "ustring \<Rightarrow> ustring \<Rightarrow> ContentFlag" where
  "mk_flag cat sev =
     \<lparr>ContentFlag.category = cat, severity = sev, title = [], description = [],
      evidence_snippet = None, matched_keywords = [], guideline_reference = None,
      content_source = None, content_url = None, published_at = None\<rparr>"

text \<open>The result record as \<open>analyze_applicant\<close> fills it before it asks for the
  recommendation: score and level computed from the flag list, the other fields at
  their defaults.\<close>

definition scored_result :: "ContentFlag list \<Rightarrow> AnalysisResult" where
  "scored_result fs =
     \<lparr>applicant_id = None, total_content_items = 0, flags = fs,
      risk_score = calculate_risk_score fs,
      risk_level = determine_risk_level (calculate_risk_score fs),
      recommendation = ustr ''pending_review'', analyzed_at = 0, summary = []\<rparr>"

text \<open>
  A library for the concrete examples. It agrees with Python on what the examples use:
  \<^item> \<open>str.lower\<close> and \<open>str.upper\<close> on ASCII letters, and \<open>str.lower\<close> on the capital
    I with dot above, U+0130, which lowers to the two code points 105 and 775;
  \<^item> \<open>\w\<close> on ASCII characters;
  \<^item> \<open>re.finditer\<close> on a pattern of letters and spaces, which matches as a literal, on
    the pattern \<open>(\<close>, where \<open>re\<close> raises \<open>re.error\<close> (the group is not closed), and on
    the pattern \<open>a{4294967296}\<close>, where \<open>re\<close> raises \<open>OverflowError\<close> (the repetition
    count is too large).
\<close>

definition example_lower :: "ustring \<Rightarrow> ustring" where
  "example_lower s =
     concat (map (\<lambda>n. if n = 304 then [105, 775]
                       else if 65 \<le> n \<and> n \<le> 90 then [n + 32] else [n]) s)"

definition example_upper :: "ustring \<Rightarrow> ustring" where
  "example_upper s = map (\<lambda>n. if 97 \<le> n \<and> n \<le> 122 then n - 32 else n) s"

definition ascii_word :: "int \<Rightarrow> bool" where
  "ascii_word n =
     ((48 \<le> n \<and> n \<le> 57) \<or> (65 \<le> n \<and> n \<le> 90) \<or> (97 \<le> n \<and> n \<le> 122) \<or> n = 95)"

definition literal_engine :: "ustring \<Rightarrow> ustring \<Rightarrow> py_error + (nat \<times> nat) list" where
  "literal_engine pattern subject =
     (if pattern = ustr ''('' then Inl ReError
      else if pattern = ustr ''a{4294967296}'' then Inl OverflowError
      else Inr (finditer_literal pattern subject))"

definition example_python :: python where
  "example_python =
     \<lparr>re_finditer = literal_engine, str_lower = example_lower, str_upper = example_upper,
      re_word = ascii_word\<rparr>"

text \<open>The entries of a database on which the engine raises \<open>re.error\<close>, and the
  database without them.\<close>

definition raises_re_error :: "python \<Rightarrow> ustring \<Rightarrow> ustring \<times> ustring \<Rightarrow> bool" where
  "raises_re_error py subject entry = (re_finditer py (fst entry) subject = Inl ReError)"

definition drop_re_errors :: "python \<Rightarrow> ustring \<Rightarrow> KeywordAnalyzer \<Rightarrow> KeywordAnalyzer" where
  "drop_re_errors py subject self =
     self\<lparr>keyword_database :=
            map (\<lambda>ce. (fst ce, filter (\<lambda>entry. \<not> raises_re_error py subject entry) (snd ce)))
                (keyword_database self)\<rparr>"

text \<open>Three databases for a concrete example: one well-formed pattern alone, with a
  pattern that does not compile before it, and with a pattern whose repetition count
  is too large before it.\<close>

definition idiot_analyzer :: KeywordAnalyzer where
  "idiot_analyzer =
     \<lparr>keyword_database = [(ustr ''unprofessional'', [(ustr ''idiot'', ustr ''low'')])]\<rparr>"

definition sample_analyzer :: KeywordAnalyzer where
  "sample_analyzer =
     \<lparr>keyword_database =
        [(ustr ''unprofessional'',
          [(ustr ''('', ustr ''high''), (ustr ''idiot'', ustr ''low'')])]\<rparr>"

definition overflow_analyzer :: KeywordAnalyzer where
  "overflow_analyzer =
     \<lparr>keyword_database =
        [(ustr ''unprofessional'',
          [(ustr ''a{4294967296}'', ustr ''high''), (ustr ''idiot'', ustr ''low'')])]\<rparr>"

definition idiot_match :: KeywordMatch where
  "idiot_match =
     \<lparr>keyword = ustr ''idiot'', category = ustr ''unprofessional'', severity = ustr ''low'',
      match_context = ustr ''You Idiot'', position = 4\<rparr>"

text \<open>No pattern of any category matches in the text: on each pattern the engine
  yields no span, or raises \<open>re.error\<close> and the pattern is passed over.\<close>

definition no_pattern_matches :: "python \<Rightarrow> KeywordAnalyzer \<Rightarrow> ustring \<Rightarrow> bool" where
  "no_pattern_matches py self text =
     list_all (\<lambda>ce. list_all (\<lambda>entry. case re_finditer py (fst entry) (str_lower py text) of
                                          Inl e \<Rightarrow> e = ReError
                                        | Inr spans \<Rightarrow> spans = [])
                              (snd ce))
              (keyword_database self)"

text \<open>The context window of a match reaches 50 characters to either side of the
  match. It is clipped by the text boundary on a side when it would reach beyond that
  end of the text.\<close>

definition window_clipped_left :: "nat \<Rightarrow> bool" where
  "window_clipped_left m_start = (m_start < 50)"

definition window_clipped_right :: "ustring \<Rightarrow> nat \<Rightarrow> bool" where
  "window_clipped_right text m_end = (length text < m_end + 50)"

text \<open>The spans that the engine reports lie inside its subject.\<close>

definition spans_inside :: "python \<Rightarrow> ustring \<Rightarrow> bool" where
  "spans_inside py subject =
     (\<forall>pattern spans. re_finditer py pattern subject = Inr spans \<longrightarrow>
        (\<forall>sp \<in> set spans. fst sp \<le> snd sp \<and> snd sp \<le> length subject))"

text \<open>A text with a match in its middle and the match record expected for it; a text
  with the match near its end; and a text of 60 capital I with dot above before the
  match, whose lowered form is 60 code points longer. The code points 120 and 121 are
  the letters x and y. For concrete examples.\<close>

definition sample_text :: ustring where
  "sample_text = replicate 60 120 @ ustr ''Idiot'' @ replicate 60 121"

definition sample_match :: KeywordMatch where
  "sample_match =
     \<lparr>keyword = ustr ''idiot'', category = ustr ''unprofessional'', severity = ustr ''low'',
      match_context =
        ustr ''...'' @ replicate 50 120 @ ustr ''Idiot'' @ replicate 50 121 @ ustr ''...'',
      position = 60\<rparr>"

definition late_text :: ustring where
  "late_text = replicate 55 120 @ ustr ''Idiot'' @ ustr ''xx''"

definition dotted_text :: ustring where
  "dotted_text = replicate 60 304 @ ustr ''Idiot''"

text \<open>A text with a critical and a low match of one category, more than 50
  characters apart, with the analyzer and the match records, for a concrete example.\<close>

definition violence_analyzer :: GuidelinesAnalyzer where
  "violence_analyzer =
     \<lparr>keyword_analyzer =
        \<lparr>keyword_database =
           [(ustr ''violence_advocacy'',
             [(ustr ''kill the president'', ustr ''critical''),
              (ustr ''time for action'', ustr ''low'')])]\<rparr>,
      strict_mode = False\<rparr>"

definition violence_text :: ustring where
  "violence_text =
     ustr ''We must kill the president now. '' @ replicate 60 120
       @ ustr '' It is time for action''"

definition critical_match :: KeywordMatch where
  "critical_match =
     \<lparr>keyword = ustr ''kill the president'', category = ustr ''violence_advocacy'',
      severity = ustr ''critical'',
      match_context = ustr ''We must kill the president now. '' @ replicate 44 120 @ ustr ''...'',
      position = 8\<rparr>"

definition low_match :: KeywordMatch where
  "low_match =
     \<lparr>keyword = ustr ''time for action'', category = ustr ''violence_advocacy'',
      severity = ustr ''low'',
      match_context = ustr ''...'' @ replicate 43 120 @ ustr '' It is time for action'',
      position = 99\<rparr>"

text \<open>The flag that \<open>_check_country\<close> builds for Russia, and two content items
  that raise no flag, for concrete examples.\<close>

definition country_flag_russia :: ContentFlag where
  "country_flag_russia =
     \<lparr>ContentFlag.category = ustr ''authoritarian_connection'',
      severity = ustr ''high'',
      title = ustr ''From Fully Authoritarian Regime: Russia'',
      description = ustr ''The applicant is from Russia, which is classified as a fully authoritarian regime.'',
      evidence_snippet = None, matched_keywords = [],
      guideline_reference = Some (ustr ''Guideline 1''),
      content_source = None, content_url = None, published_at = None\<rparr>"

definition quiet_items :: "ContentItem list" where
  "quiet_items =
     [\<lparr>item_text_content = Some (ustr ''hello world''),
       item_platform = Present (Some (ustr ''twitter'')),
       item_url = None, item_published_at = None\<rparr>,
      \<lparr>item_text_content = None, item_platform = Present (Some (ustr ''web'')),
       item_url = None, item_published_at = None\<rparr>]"

text \<open>The country is in none of the lists of the table.\<close>

definition unlisted :: "ustring \<Rightarrow> bool" where
  "unlisted c =
     (strip c \<notin> set ALL_DEMOCRATIC \<and> strip c \<notin> set ALL_HYBRID_AUTHORITARIAN
      \<and> strip c \<notin> set ALL_FULLY_AUTHORITARIAN \<and> strip c \<notin> set ALL_UNCLASSIFIED)"

text \<open>A text is clean for an analyzer when no pattern of its database matches in it
  and, in strict mode, it mentions no listed leader, organisation or country.\<close>

definition clean_text :: "python \<Rightarrow> GuidelinesAnalyzer \<Rightarrow> ustring \<Rightarrow> bool" where
  "clean_text py self text =
     (no_pattern_matches py (keyword_analyzer self) text
      \<and> (strict_mode self \<longrightarrow> check_for_authoritarian_mentions py text = []))"

text \<open>The analyzer of the example in strict mode, a content item and a profile, and the
  result record of an analysis that finds nothing, for concrete examples.\<close>

definition strict_analyzer :: GuidelinesAnalyzer where
  "strict_analyzer = violence_analyzer\<lparr>strict_mode := True\<rparr>"

definition computing_item :: ContentItem where
  "computing_item =
     \<lparr>item_text_content = Some (ustr ''computing''),
      item_platform = Present (Some (ustr ''twitter'')),
      item_url = None, item_published_at = None\<rparr>"

definition quiet_profile :: SocialProfile where
  "quiet_profile =
     \<lparr>profile_bio = Some (ustr ''hello world''),
      profile_platform = Present (Some (ustr ''twitter'')),
      profile_url = None\<rparr>"

definition approved_result :: "int option \<Rightarrow> nat \<Rightarrow> nat \<Rightarrow> AnalysisResult" where
  "approved_result aid n now =
     \<lparr>applicant_id = aid, total_content_items = n, flags = [], risk_score = 0,
      risk_level = ustr ''low'', recommendation = ustr ''approve'', analyzed_at = now,
      summary = ustr ''No concerning content found. Applicant appears to meet vetting guidelines.''\<rparr>"

section \<open>Literals\<close>

lemma ustr_inject [simp]: "ustr a = ustr b \<longleftrightarrow> a = b"
  by (simp add: ustr_def inj_map_eq_map [OF inj_of_char])

lemma ustr_Nil [simp]: "ustr [] = []"
  by (simp add: ustr_def)

lemma ustr_eq_Nil [simp]: "ustr a = [] \<longleftrightarrow> a = []" "[] = ustr a \<longleftrightarrow> a = []"
  by (auto simp add: ustr_def)

lemma length_ustr [simp]: "length (ustr a) = length a"
  by (simp add: ustr_def)

section \<open>Properties of the risk aggregator\<close>

lemma dict_get_severity_weights:
  "dict_get severity_weights (ContentFlag.severity f) 0 = flag_weight f"
  by (simp add: dict_get_def severity_weights_def flag_weight_def)

lemma flag_weight_nonneg: "0 \<le> flag_weight f"
  by (simp add: flag_weight_def)

lemma sum_flag_weight_nonneg: "0 \<le> sum_list (map flag_weight fs)"
  by (induction fs) (simp_all add: flag_weight_nonneg)

lemma calculate_risk_score_sum:
  "calculate_risk_score fs = min 100 (sum_list (map flag_weight fs))"
  by (simp add: calculate_risk_score_def dict_get_severity_weights)

text \<open>
  C2: the risk score is the sum of the per-flag severity weights (critical 30, high 20,
  medium 10, low 3), capped at 100; the empty flag list scores 0; the score always lies
  in the closed interval from 0 to 100.
\<close>

theorem risk_score_weighted_sum_capped:
  "calculate_risk_score fs = min 100 (sum_list (map flag_weight fs))
   \<and> calculate_risk_score [] = 0
   \<and> 0 \<le> calculate_risk_score fs \<and> calculate_risk_score fs \<le> 100"
proof -
  have s: "calculate_risk_score fs = min 100 (sum_list (map flag_weight fs))"
    by (rule calculate_risk_score_sum)
  have e: "calculate_risk_score [] = 0"
    by (simp add: calculate_risk_score_def)
  have "0 \<le> min 100 (sum_list (map flag_weight fs))"
    using sum_flag_weight_nonneg [of fs] by simp
  with s e show ?thesis by simp
qed

theorem risk_score_weighted_sum_capped_witness:
  "calculate_risk_score [mk_flag (ustr ''hate_speech'') (ustr ''critical''), mk_flag (ustr ''unprofessional'') (ustr ''low'')]
     = 33
   \<and> calculate_risk_score
        (replicate 4 (mk_flag (ustr ''hate_speech'') (ustr ''critical''))) = 100"
  using risk_score_weighted_sum_capped
          [of "[mk_flag (ustr ''hate_speech'') (ustr ''critical''), mk_flag (ustr ''unprofessional'') (ustr ''low'')]"]
        risk_score_weighted_sum_capped [of "replicate 4 (mk_flag (ustr ''hate_speech'') (ustr ''critical''))"]
  by (simp add: flag_weight_def mk_flag_def numeral_eq_Suc)

text \<open>
  C9: appending any flag to a flag list never lowers the risk score, the cap at 100
  included.
\<close>

theorem risk_score_monotone_in_flags:
  "calculate_risk_score fs \<le> calculate_risk_score (fs @ [f])"
proof -
  have "sum_list (map flag_weight fs) \<le> sum_list (map flag_weight (fs @ [f]))"
    using flag_weight_nonneg [of f] by simp
  then show ?thesis
    unfolding calculate_risk_score_sum by (simp add: min_le_iff_disj)
qed

theorem risk_score_monotone_in_flags_witness:
  "calculate_risk_score [mk_flag (ustr ''unprofessional'') (ustr ''low'')]
     \<le> calculate_risk_score ([mk_flag (ustr ''unprofessional'') (ustr ''low'')] @ [mk_flag (ustr ''hate_speech'') (ustr ''medium'')])
   \<and> calculate_risk_score [mk_flag (ustr ''unprofessional'') (ustr ''low'')] = 3
   \<and> calculate_risk_score [mk_flag (ustr ''unprofessional'') (ustr ''low''), mk_flag (ustr ''hate_speech'') (ustr ''medium'')] = 13"
  using risk_score_monotone_in_flags
          [of "[mk_flag (ustr ''unprofessional'') (ustr ''low'')]" "mk_flag (ustr ''hate_speech'') (ustr ''medium'')"]
  by (simp add: calculate_risk_score_sum flag_weight_def mk_flag_def)

text \<open>
  C3: the risk level is a total function of the integer score with inclusive lower
  bounds 70, 40 and 20, and it is monotonic in the order low, medium, high, critical.
\<close>

theorem risk_level_thresholds_monotone:
  "(s \<ge> 70 \<longrightarrow> determine_risk_level s = ustr ''critical'')
   \<and> (70 > s \<and> s \<ge> 40 \<longrightarrow> determine_risk_level s = ustr ''high'')
   \<and> (40 > s \<and> s \<ge> 20 \<longrightarrow> determine_risk_level s = ustr ''medium'')
   \<and> (s < 20 \<longrightarrow> determine_risk_level s = ustr ''low'')
   \<and> (s1 \<le> s2 \<longrightarrow>
        level_rank (determine_risk_level s1) \<le> level_rank (determine_risk_level s2))"
  by (simp add: determine_risk_level_def level_rank_def)

theorem risk_level_thresholds_monotone_witness:
  "determine_risk_level 70 = ustr ''critical'' \<and> determine_risk_level 69 = ustr ''high''
   \<and> determine_risk_level 40 = ustr ''high'' \<and> determine_risk_level 39 = ustr ''medium''
   \<and> determine_risk_level 20 = ustr ''medium'' \<and> determine_risk_level 19 = ustr ''low''
   \<and> level_rank (determine_risk_level 19) \<le> level_rank (determine_risk_level 20)"
  using risk_level_thresholds_monotone [of 70 19 20]
        risk_level_thresholds_monotone [of 69 19 20]
        risk_level_thresholds_monotone [of 40 19 20]
        risk_level_thresholds_monotone [of 39 19 20]
        risk_level_thresholds_monotone [of 20 19 20]
        risk_level_thresholds_monotone [of 19 19 20]
  by simp

text \<open>
  C1: the recommendation follows the ordered decision procedure, first matching rule
  wins. It is reject exactly when some flag is critical, or is high with a category in
  the auto-reject set; otherwise pending review when the risk level is medium, high or
  critical; otherwise approve when the score is below 10 and no flag is high or
  critical; otherwise pending review. A critical flag gives reject whatever the score.
\<close>

theorem recommendation_decision_procedure:
  "(generate_recommendation r = ustr ''reject'' \<longleftrightarrow>
      (\<exists>f \<in> set (flags r).
          ContentFlag.severity f = ustr ''critical'' \<or>
          (ContentFlag.severity f = ustr ''high'' \<and>
           ContentFlag.category f \<in> {ustr ''violence_advocacy'', ustr ''hate_speech'', ustr ''despot_admiration''})))
   \<and> generate_recommendation r =
       (if \<exists>f \<in> set (flags r).
             ContentFlag.severity f = ustr ''critical'' \<or>
             (ContentFlag.severity f = ustr ''high'' \<and>
              ContentFlag.category f \<in> {ustr ''violence_advocacy'', ustr ''hate_speech'', ustr ''despot_admiration''})
        then ustr ''reject''
        else if risk_level r \<in> {ustr ''medium'', ustr ''high'', ustr ''critical''} then ustr ''pending_review''
        else if risk_score r < 10 \<and>
                (\<forall>f \<in> set (flags r). ContentFlag.severity f \<notin> {ustr ''high'', ustr ''critical''})
             then ustr ''approve''
        else ustr ''pending_review'')
   \<and> ((\<exists>f \<in> set (flags r). ContentFlag.severity f = ustr ''critical'') \<longrightarrow>
        generate_recommendation r = ustr ''reject'')"
proof -
  let ?auto = "\<lambda>f. ContentFlag.severity f = ustr ''critical'' \<or>
                   (ContentFlag.severity f = ustr ''high'' \<and>
                    ContentFlag.category f \<in> {ustr ''violence_advocacy'', ustr ''hate_speech'', ustr ''despot_admiration''})"
  have flt: "(filter (\<lambda>f. ContentFlag.severity f = ustr ''critical'' \<or>
                        (ContentFlag.severity f = ustr ''high'' \<and>
                         ContentFlag.category f \<in> set critical_categories))
                   (flags r) \<noteq> []) = (\<exists>f \<in> set (flags r). ?auto f)"
    by (simp add: filter_empty_conv critical_categories_def)
  have chain: "generate_recommendation r =
       (if \<exists>f \<in> set (flags r). ?auto f then ustr ''reject''
        else if risk_level r \<in> {ustr ''medium'', ustr ''high'', ustr ''critical''} then ustr ''pending_review''
        else if risk_score r < 10 \<and>
                (\<forall>f \<in> set (flags r). ContentFlag.severity f \<notin> {ustr ''high'', ustr ''critical''})
             then ustr ''approve''
        else ustr ''pending_review'')"
    unfolding generate_recommendation_def Let_def flt
    by (auto simp add: list_ex_iff)
  have iff: "generate_recommendation r = ustr ''reject'' \<longleftrightarrow> (\<exists>f \<in> set (flags r). ?auto f)"
    unfolding chain by simp
  have crit: "(\<exists>f \<in> set (flags r). ContentFlag.severity f = ustr ''critical'') \<longrightarrow>
        generate_recommendation r = ustr ''reject''"
    using iff by blast
  from iff chain crit show ?thesis by blast
qed

theorem recommendation_decision_procedure_witness:
  "generate_recommendation (scored_result [mk_flag (ustr ''unprofessional'') (ustr ''critical'')]) = ustr ''reject''
   \<and> generate_recommendation (scored_result [mk_flag (ustr ''hate_speech'') (ustr ''high'')]) = ustr ''reject''
   \<and> generate_recommendation (scored_result [mk_flag (ustr ''regime_praise'') (ustr ''high'')]) = ustr ''pending_review''
   \<and> generate_recommendation (scored_result [mk_flag (ustr ''unprofessional'') (ustr ''low'')]) = ustr ''approve''
   \<and> generate_recommendation (scored_result [mk_flag (ustr ''unprofessional'') (ustr ''medium'')]) = ustr ''pending_review''"
  using recommendation_decision_procedure [of "scored_result [mk_flag (ustr ''unprofessional'') (ustr ''critical'')]"]
        recommendation_decision_procedure [of "scored_result [mk_flag (ustr ''hate_speech'') (ustr ''high'')]"]
        recommendation_decision_procedure [of "scored_result [mk_flag (ustr ''regime_praise'') (ustr ''high'')]"]
        recommendation_decision_procedure [of "scored_result [mk_flag (ustr ''unprofessional'') (ustr ''low'')]"]
        recommendation_decision_procedure [of "scored_result [mk_flag (ustr ''unprofessional'') (ustr ''medium'')]"]
  by (simp add: scored_result_def mk_flag_def calculate_risk_score_sum flag_weight_def
                determine_risk_level_def)

section \<open>Loops that may raise\<close>

lemma try_extend_all_empty:
  "(\<forall>x \<in> set xs. f x = Inr []) \<Longrightarrow> try_extend f xs = Inr []"
  by (induction xs) simp_all

lemma try_extend_filter:
  "(\<forall>x \<in> set xs. \<not> P x \<longrightarrow> f x = Inr []) \<Longrightarrow> try_extend f (filter P xs) = try_extend f xs"
  by (induction xs) (auto split: sum.splits)

lemma try_extend_cong:
  "(\<forall>x \<in> set xs. f x = g x) \<Longrightarrow> try_extend f xs = try_extend g xs"
  by (induction xs) (auto split: sum.splits)

lemma try_extend_member:
  "try_extend f xs = Inr zs \<Longrightarrow> m \<in> set zs \<Longrightarrow> \<exists>x \<in> set xs. \<exists>ys. f x = Inr ys \<and> m \<in> set ys"
  by (induction xs arbitrary: zs) (auto split: sum.splits)

lemma try_extend_contains:
  "try_extend f xs = Inr zs \<Longrightarrow> x \<in> set xs \<Longrightarrow> f x = Inr ys \<Longrightarrow> set ys \<subseteq> set zs"
  by (induction xs arbitrary: zs) (auto split: sum.splits)

lemma try_extend_returns:
  "\<forall>x \<in> set xs. \<exists>ys. f x = Inr ys \<Longrightarrow> \<exists>zs. try_extend f xs = Inr zs"
  by (induction xs) auto

lemma try_map_returns:
  "\<forall>x \<in> set xs. \<exists>y. f x = Inr y \<Longrightarrow> \<exists>ys. try_map f xs = Inr ys"
  by (induction xs) auto

section \<open>Properties of the pattern detector\<close>

lemma scan_pattern_re_error:
  "raises_re_error py subject entry \<Longrightarrow> scan_pattern py text subject c entry = Inr []"
  by (simp add: raises_re_error_def scan_pattern_def)

lemma map_of_map_snd:
  "map_of (map (\<lambda>ce. (fst ce, g (snd ce))) db) c = map_option g (map_of db c)"
  by (induction db) auto

lemma scan_category_drop_re_errors:
  "scan_category py (keyword_database (drop_re_errors py subject self)) text subject c
     = scan_category py (keyword_database self) text subject c"
  by (cases "map_of (keyword_database self) c")
     (simp_all add: scan_category_def drop_re_errors_def map_of_map_snd
        try_extend_filter scan_pattern_re_error)

lemma categories_to_check_drop_re_errors:
  "categories_to_check (drop_re_errors py subject self) cats = categories_to_check self cats"
  by (simp add: categories_to_check_def drop_re_errors_def comp_def split: option.splits)

text \<open>
  A pattern on which the engine raises \<open>re.error\<close> is passed over: the scan gives what
  it gives on the database without such patterns.
\<close>

lemma re_error_pattern_is_skipped:
  "analyze_text py (drop_re_errors py (str_lower py text) self) text cats
     = analyze_text py self text cats"
  by (simp add: analyze_text_def Let_def categories_to_check_drop_re_errors
        scan_category_drop_re_errors try_extend_cong)

text \<open>
  C8: a malformed pattern should be passed over and the scan go on. The handler of
  \<open>analyze_text\<close> catches \<open>re.error\<close> only. On the pattern \<open>a{4294967296}\<close> the engine
  raises \<open>OverflowError\<close>, which leaves \<open>analyze_text\<close>: the match of the well-formed
  pattern after it is lost, while the same database without that pattern, or with the
  pattern \<open>(\<close> in its place, yields the match.
\<close>

theorem overflow_pattern_aborts_scan:
  "analyze_text example_python overflow_analyzer (ustr ''You Idiot'') None = Inl OverflowError
   \<and> analyze_text example_python idiot_analyzer (ustr ''You Idiot'') None = Inr [idiot_match]
   \<and> analyze_text example_python sample_analyzer (ustr ''You Idiot'') None = Inr [idiot_match]"
  by code_simp

lemma slice_append: "a \<le> b \<Longrightarrow> b \<le> c \<Longrightarrow> slice xs a c = slice xs a b @ slice xs b c"
proof -
  assume ab: "a \<le> b" and bc: "b \<le> c"
  then have "c - a = (b - a) + (c - b)" by simp
  then have "take (c - a) (drop a xs) = take (b - a) (drop a xs) @ take (c - b) (drop (b - a) (drop a xs))"
    by (simp add: take_add)
  with ab show ?thesis by (simp add: slice_def)
qed

lemma slice_clip: "slice xs a (min (length xs) b) = slice xs a b"
  by (simp add: slice_def min_def)

lemma length_slice: "b \<le> length xs \<Longrightarrow> length (slice xs a b) = b - a"
  by (simp add: slice_def)

lemma extract_context_shape:
  assumes "s \<le> e" "e \<le> length text"
  shows "extract_context text s e =
           (if 50 < s then ustr ''...'' else []) @ slice text (s - 50) s @ slice text s e
             @ slice text e (e + 50) @ (if e + 50 < length text then ustr ''...'' else [])"
proof -
  have st: "nat (max 0 (int s - 50)) = s - 50" by simp
  have "slice text (s - 50) (min (length text) (e + 50)) = slice text (s - 50) (e + 50)"
    by (rule slice_clip)
  also have "\<dots> = slice text (s - 50) s @ slice text s (e + 50)"
    by (rule slice_append) (use assms in simp_all)
  also have "slice text s (e + 50) = slice text s e @ slice text e (e + 50)"
    by (rule slice_append) (use assms in simp_all)
  finally have mid: "slice text (s - 50) (min (length text) (e + 50))
                      = slice text (s - 50) s @ slice text s e @ slice text e (e + 50)" .
  show ?thesis
    unfolding extract_context_def Let_def st mid by simp
qed

lemma analyze_text_match_span:
  assumes "analyze_text py self text cats = Inr ms" "m \<in> set ms"
  shows "\<exists>p c sev spans sp. re_finditer py p (str_lower py text) = Inr spans \<and> sp \<in> set spans
            \<and> m = keyword_match text (str_lower py text) c sev sp"
proof -
  from assms have te: "try_extend (scan_category py (keyword_database self) text (str_lower py text))
                     (categories_to_check self cats) = Inr ms"
    by (auto simp: analyze_text_def Let_def split: if_splits)
  from try_extend_member [OF te assms(2)] obtain c ys where
    sc: "scan_category py (keyword_database self) text (str_lower py text) c = Inr ys"
    and mys: "m \<in> set ys" by blast
  from sc obtain es where
    "try_extend (scan_pattern py text (str_lower py text) c) es = Inr ys"
    using mys by (auto simp: scan_category_def split: option.splits)
  from try_extend_member [OF this mys] obtain entry zs where
    sp: "scan_pattern py text (str_lower py text) c entry = Inr zs" and mzs: "m \<in> set zs"
    by blast
  from sp mzs obtain spans sp' where
    "re_finditer py (fst entry) (str_lower py text) = Inr spans" "sp' \<in> set spans"
    "m = keyword_match text (str_lower py text) c (snd entry) sp'"
    by (auto simp: scan_pattern_def split: sum.splits if_splits)
  then show ?thesis by blast
qed

lemma scan_from_spans:
  "sp \<in> set (scan_from hit n len pos) \<Longrightarrow>
     hit (fst sp) \<and> snd sp = fst sp + n \<and> pos \<le> fst sp \<and> fst sp \<le> len"
proof (induction hit n len pos rule: scan_from.induct)
  case (1 hit n len pos)
  show ?case
  proof (cases "pos > len")
    case True
    with "1.prems" show ?thesis by simp
  next
    case False
    show ?thesis
    proof (cases "hit pos")
      case True
      with False "1.prems" have "sp = (pos, pos + n) \<or> sp \<in> set (scan_from hit n len (pos + max 1 n))"
        by simp
      then show ?thesis
      proof
        assume "sp = (pos, pos + n)"
        with True False show ?thesis by simp
      next
        assume "sp \<in> set (scan_from hit n len (pos + max 1 n))"
        with "1.IH"(1) [OF False True] show ?thesis by simp
      qed
    next
      case nohit: False
      with False "1.prems" have "sp \<in> set (scan_from hit n len (pos + 1))" by simp
      with "1.IH"(2) [OF False nohit] show ?thesis by simp
    qed
  qed
qed

lemma occurs_at_inside:
  assumes "occurs_at lit s pos" "pos \<le> length s"
  shows "pos + length lit \<le> length s"
proof -
  from assms(1) have "length (take (length lit) (drop pos s)) = length lit"
    by (simp add: occurs_at_def slice_def)
  with assms(2) show ?thesis by simp
qed

lemma spans_inside_example_python: "spans_inside example_python subject"
  unfolding spans_inside_def
proof (intro allI impI ballI)
  fix pattern spans sp
  assume eng: "re_finditer example_python pattern subject = Inr spans" and sp: "sp \<in> set spans"
  from eng have "spans = finditer_literal pattern subject"
    by (auto simp: example_python_def literal_engine_def split: if_splits)
  with sp have "sp \<in> set (scan_from (occurs_at pattern subject) (length pattern) (length subject) 0)"
    by (simp add: finditer_literal_def)
  from scan_from_spans [OF this]
  have "occurs_at pattern subject (fst sp)" "snd sp = fst sp + length pattern"
       "fst sp \<le> length subject" by simp_all
  with occurs_at_inside [of pattern subject "fst sp"]
  show "fst sp \<le> snd sp \<and> snd sp \<le> length subject" by simp
qed

lemma analyze_sample_text:
  "analyze_text example_python idiot_analyzer sample_text None = Inr [sample_match]"
  by code_simp

lemma lower_sample_text_length:
  "length (str_lower example_python sample_text) = length sample_text"
  by code_simp

lemma sample_context:
  "match_context sample_match =
     ustr ''...'' @ slice sample_text 10 60 @ slice sample_text 60 65 @ slice sample_text 65 115
       @ ustr ''...''"
  by code_simp

text \<open>
  C7, as amended: for every text whose lowered form has the length of the text, and
  every match that \<open>analyze_text\<close> produces on it (the engine reporting spans inside its
  subject), the context is cut from the original text: up to 50 characters before the
  match, the span of the match in the original text, up to 50 characters after it.
  The marker \<open>...\<close> is prefixed exactly when the match starts more than 50 characters
  into the text, and appended exactly when more than 50 characters follow the match:
  when text is left out on that side. On a side where the window is clipped by the text
  boundary no marker is added.
\<close>

theorem context_snippet_shape:
  assumes "analyze_text py self text cats = Inr ms" and "m \<in> set ms"
      and "spans_inside py (str_lower py text)"
      and "length (str_lower py text) = length text"
  shows "position m + length (keyword m) \<le> length text
         \<and> keyword m = slice (str_lower py text) (position m) (position m + length (keyword m))
         \<and> match_context m =
             (if 50 < position m then ustr ''...'' else [])
             @ slice text (position m - 50) (position m)
             @ slice text (position m) (position m + length (keyword m))
             @ slice text (position m + length (keyword m)) (position m + length (keyword m) + 50)
             @ (if position m + length (keyword m) + 50 < length text then ustr ''...'' else [])
         \<and> (50 < position m \<longrightarrow> \<not> window_clipped_left (position m))
         \<and> (position m + length (keyword m) + 50 < length text
              \<longrightarrow> \<not> window_clipped_right text (position m + length (keyword m)))"
proof -
  from analyze_text_match_span [OF assms(1,2)] obtain p c sev spans sp where
    eng: "re_finditer py p (str_lower py text) = Inr spans" and sp: "sp \<in> set spans"
    and m: "m = keyword_match text (str_lower py text) c sev sp"
    by blast
  obtain s e where sp_eq: "sp = (s, e)" by (cases sp)
  from assms(3) eng
  have "\<forall>sp \<in> set spans. fst sp \<le> snd sp \<and> snd sp \<le> length (str_lower py text)"
    unfolding spans_inside_def by blast
  with sp sp_eq have se: "s \<le> e" and el: "e \<le> length text"
    by (auto simp: assms(4))
  have pos: "position m = s" by (simp add: m keyword_match_def sp_eq)
  have kw: "keyword m = slice (str_lower py text) s e"
    by (simp add: m keyword_match_def sp_eq)
  have len: "length (keyword m) = e - s"
    using el by (simp add: kw length_slice assms(4))
  have e_eq: "position m + length (keyword m) = e"
    using se by (simp add: pos len)
  have ctx: "match_context m = extract_context text s e"
    by (simp add: m keyword_match_def sp_eq)
  show ?thesis
    unfolding e_eq unfolding pos
    using el kw extract_context_shape [OF se el]
    by (simp add: ctx window_clipped_left_def window_clipped_right_def)
qed

theorem context_snippet_shape_witness:
  "analyze_text example_python idiot_analyzer sample_text None = Inr [sample_match]
   \<and> spans_inside example_python (str_lower example_python sample_text)
   \<and> length (str_lower example_python sample_text) = length sample_text
   \<and> match_context sample_match =
        ustr ''...'' @ slice sample_text 10 60 @ slice sample_text 60 65 @ slice sample_text 65 115
          @ ustr ''...''
   \<and> \<not> window_clipped_left 60 \<and> \<not> window_clipped_right sample_text 65"
proof -
  have mem: "sample_match \<in> set [sample_match]" by simp
  have si: "spans_inside example_python (str_lower example_python sample_text)"
    by (rule spans_inside_example_python)
  have len: "length sample_text = 125" by (simp add: sample_text_def)
  have pk: "position sample_match = 60" "length (keyword sample_match) = 5"
    by (simp_all add: sample_match_def)
  from context_snippet_shape [OF analyze_sample_text mem si lower_sample_text_length]
       analyze_sample_text si lower_sample_text_length sample_context
  show ?thesis
    by (simp add: pk len)
qed

text \<open>
  The claim as worded fails: with the match at 55 to 60 in a text of 62 characters the
  window reaches from 5 to 110. Its left edge is inside the text, not clipped, and the
  marker is prefixed; its right edge is clipped by the end of the text, and no marker
  is appended.
\<close>

theorem context_marker_counterexample:
  "analyze_text example_python idiot_analyzer late_text None
     = Inr [\<lparr>keyword = ustr ''idiot'', category = ustr ''unprofessional'',
              severity = ustr ''low'',
              match_context = ustr ''...'' @ replicate 50 120 @ ustr ''Idiotxx'',
              position = 55\<rparr>]
   \<and> length late_text = 62
   \<and> \<not> window_clipped_left 55
   \<and> window_clipped_right late_text 60"
  by code_simp

text \<open>
  Where lowering lengthens the text, the spans of the lowered text do not index the
  original: after 60 capital I with dot above the match is found at 120 in the lowered
  text, beyond the 65 characters of the original, and the context is the marker alone.
  The amended statement leaves such texts out.
\<close>

lemma context_after_lengthening_lower:
  "analyze_text example_python idiot_analyzer dotted_text None
     = Inr [\<lparr>keyword = ustr ''idiot'', category = ustr ''unprofessional'',
              severity = ustr ''low'', match_context = ustr ''...'', position = 120\<rparr>]
   \<and> length dotted_text = 65
   \<and> length (str_lower example_python dotted_text) = 125"
  by code_simp

section \<open>Properties of the flag generator\<close>

lemma highest_severity_first_present:
  "highest_severity ms =
     (if \<exists>m \<in> set ms. KeywordMatch.severity m = ustr ''critical'' then ustr ''critical''
      else if \<exists>m \<in> set ms. KeywordMatch.severity m = ustr ''high'' then ustr ''high''
      else if \<exists>m \<in> set ms. KeywordMatch.severity m = ustr ''medium'' then ustr ''medium''
      else ustr ''low'')"
  by (simp add: highest_severity_def severity_order_def list_ex_iff)

lemma analyze_violence_text:
  "analyze_text example_python (keyword_analyzer violence_analyzer) violence_text None
     = Inr [critical_match, low_match]"
  by code_simp

lemma group_violence_matches:
  "group_matches [] [critical_match, low_match]
     = [(ustr ''violence_advocacy'', [critical_match, low_match])]"
  by (simp add: critical_match_def low_match_def dict_get_def)

lemma best_of_violence_matches:
  "py_max severity_key [critical_match, low_match] = Inr low_match"
  by (simp add: py_max_def severity_key_def severity_order_def critical_match_def low_match_def)

lemma highest_of_violence_matches:
  "highest_severity [critical_match, low_match] = ustr ''critical''"
  by (simp add: highest_severity_first_present critical_match_def)

lemma violence_contexts_differ: "match_context low_match \<noteq> match_context critical_match"
  by code_simp

text \<open>
  C6: the flag of a group carries the first severity present in the order critical,
  high, medium, low, and its evidence snippet should be the context of a most severe
  match of the group. The code takes \<open>max\<close> over the index in the severity order,
  where critical is 0 and low is 3, so the snippet is that of a least severe match.
  Evaluated here on a text with a critical and a low match of one category: the flag is
  critical and quotes the context of the low match.
\<close>

theorem evidence_snippet_of_least_severe_match:
  "analyze_content example_python violence_analyzer violence_text (Some (ustr ''twitter''))
      None None
     = Inr [\<lparr>ContentFlag.category = ustr ''violence_advocacy'',
              severity = ustr ''critical'',
              title = ustr ''Violence Advocacy'',
              description = ustr ''Content may violate: Has used or advocated for the use of violence as a valid method to fight government oppression.'',
              evidence_snippet = Some (match_context low_match),
              matched_keywords = [ustr ''kill the president'', ustr ''time for action''],
              guideline_reference = Some (ustr ''Guideline 4''),
              content_source = Some (ustr ''twitter''), content_url = None,
              published_at = None\<rparr>]
   \<and> match_context low_match \<noteq> match_context critical_match"
proof -
  have sm: "strict_mode violence_analyzer = False"
    by (simp add: violence_analyzer_def)
  have fl: "flag_for_group (Some (ustr ''twitter'')) None None
              (ustr ''violence_advocacy'', [critical_match, low_match])
     = Inr \<lparr>ContentFlag.category = ustr ''violence_advocacy'',
              severity = ustr ''critical'',
              title = ustr ''Violence Advocacy'',
              description = ustr ''Content may violate: Has used or advocated for the use of violence as a valid method to fight government oppression.'',
              evidence_snippet = Some (match_context low_match),
              matched_keywords = [ustr ''kill the president'', ustr ''time for action''],
              guideline_reference = Some (ustr ''Guideline 4''),
              content_source = Some (ustr ''twitter''), content_url = None,
              published_at = None\<rparr>"
    by code_simp
  show ?thesis
    unfolding analyze_content_def analyze_violence_text sum.case Let_def group_violence_matches
    using violence_contexts_differ by (simp add: fl sm)
qed

section \<open>What the analysis can raise\<close>

text \<open>\<open>max\<close> raises on an empty list, but every group that \<open>_analyze_content\<close>
  builds holds at least one match. So \<open>_analyze_content\<close> raises only what
  \<open>analyze_text\<close> raises, and with an engine that raises nothing but \<open>re.error\<close>
  neither it nor \<open>analyze_applicant\<close> raises.\<close>

lemma dict_set_new: "map_of d k = None \<Longrightarrow> dict_set d k v = d @ [(k, v)]"
  by (induction d) (auto split: if_splits)

lemma dict_set_last: "map_of d k = None \<Longrightarrow> dict_set (d @ [(k, u)]) k v = d @ [(k, v)]"
  by (induction d) (auto split: if_splits)

lemma dict_set_subset: "set (dict_set d k v) \<subseteq> insert (k, v) (set d)"
  by (induction d) (auto split: if_splits)

lemma group_matches_nonempty:
  "\<forall>g \<in> set d. snd g \<noteq> [] \<Longrightarrow> \<forall>g \<in> set (group_matches d ms). snd g \<noteq> []"
proof (induction ms arbitrary: d)
  case Nil
  then show ?case by simp
next
  case (Cons m ms)
  let ?k = "KeywordMatch.category m"
  let ?d1 = "if map_of d ?k = None then dict_set d ?k [] else d"
  let ?d2 = "dict_set ?d1 ?k (dict_get ?d1 ?k [] @ [m])"
  have "\<forall>g \<in> set ?d2. snd g \<noteq> []"
  proof (cases "map_of d ?k = None")
    case True
    then have "?d2 = d @ [(?k, dict_get (d @ [(?k, [])]) ?k [] @ [m])]"
      by (simp add: dict_set_new dict_set_last)
    with Cons.prems show ?thesis by auto
  next
    case False
    have "?d1 = d" by (rule if_not_P [OF False])
    then have "?d2 = dict_set d ?k (dict_get d ?k [] @ [m])" by (simp only:)
    then have "set ?d2 \<subseteq> insert (?k, dict_get d ?k [] @ [m]) (set d)"
      using dict_set_subset [of d ?k "dict_get d ?k [] @ [m]"] by simp
    with Cons.prems show ?thesis by auto
  qed
  from Cons.IH [OF this] show ?case by (simp add: Let_def)
qed

lemma flag_for_group_returns:
  "snd grp \<noteq> [] \<Longrightarrow> \<exists>f. flag_for_group source url pub grp = Inr f"
  by (cases "snd grp") (simp_all add: flag_for_group_def py_max_def Let_def)

lemma analyze_content_returns:
  assumes "analyze_text py (keyword_analyzer self) text None = Inr ms"
  shows "\<exists>fs. analyze_content py self text source url pub = Inr fs"
proof -
  let ?groups = "group_matches [] ms"
  have "\<forall>g \<in> set ?groups. snd g \<noteq> []"
    by (rule group_matches_nonempty) simp
  then have "\<forall>g \<in> set ?groups. \<exists>f. flag_for_group source url pub g = Inr f"
    by (auto intro: flag_for_group_returns)
  from try_map_returns [OF this] obtain fs where
    "try_map (flag_for_group source url pub) ?groups = Inr fs" by blast
  then show ?thesis by (simp add: analyze_content_def assms Let_def)
qed

lemma analyze_content_raises:
  "analyze_content py self text source url pub = Inl e
     \<Longrightarrow> analyze_text py (keyword_analyzer self) text None = Inl e"
  using analyze_content_returns [of py self "text" _ source url pub]
  by (cases "analyze_text py (keyword_analyzer self) text None")
     (auto simp: analyze_content_def)

lemma scan_pattern_returns:
  assumes "\<forall>pattern subject e. re_finditer py pattern subject = Inl e \<longrightarrow> e = ReError"
  shows "\<exists>ms. scan_pattern py text subject c entry = Inr ms"
  using assms by (cases "re_finditer py (fst entry) subject") (auto simp: scan_pattern_def)

lemma analyze_text_returns:
  assumes "\<forall>pattern subject e. re_finditer py pattern subject = Inl e \<longrightarrow> e = ReError"
  shows "\<exists>ms. analyze_text py self text cats = Inr ms"
proof -
  have "\<exists>ms. scan_category py (keyword_database self) text (str_lower py text) c = Inr ms" for c
    using scan_pattern_returns [OF assms]
    by (cases "map_of (keyword_database self) c")
       (auto simp: scan_category_def intro: try_extend_returns)
  then show ?thesis
    by (auto simp: analyze_text_def Let_def intro: try_extend_returns)
qed

lemma analyze_applicant_returns:
  assumes "\<forall>pattern subject e. re_finditer py pattern subject = Inl e \<longrightarrow> e = ReError"
  shows "\<exists>r. analyze_applicant py self now applicant items profiles = Inr r"
proof -
  have ac: "\<exists>fs. analyze_content py self t source url pub = Inr fs" for t source url pub
    using analyze_text_returns [OF assms] analyze_content_returns by blast
  have "\<forall>item \<in> set items. \<exists>fs. content_item_flags py self item = Inr fs"
    using ac by (simp add: content_item_flags_def Let_def)
  from try_extend_returns [OF this] obtain cf where
    cf: "try_extend (content_item_flags py self) items = Inr cf" by blast
  have "\<forall>p \<in> set (case profiles of None \<Rightarrow> [] | Some ps \<Rightarrow> ps).
          \<exists>fs. profile_flags py self p = Inr fs"
    using ac by (simp add: profile_flags_def Let_def)
  from try_extend_returns [OF this] obtain bf where
    bf: "try_extend (profile_flags py self)
           (case profiles of None \<Rightarrow> [] | Some ps \<Rightarrow> ps) = Inr bf" by blast
  show ?thesis by (simp add: analyze_applicant_def cf bf Let_def)
qed

section \<open>Properties of the mention scan\<close>

lemma scan_from_finds:
  "hit p \<Longrightarrow> pos \<le> p \<Longrightarrow> p \<le> len \<Longrightarrow> scan_from hit n len pos \<noteq> []"
proof (induction hit n len pos rule: scan_from.induct)
  case (1 hit n len pos)
  from "1.prems" have inside: "\<not> pos > len" by simp
  show ?case
  proof (cases "hit pos")
    case True
    with inside show ?thesis by simp
  next
    case False
    with "1.prems" have "pos \<noteq> p" by auto
    with "1.prems" have "pos + 1 \<le> p" by simp
    with "1.IH"(2) [OF inside False "1.prems"(1) _ "1.prems"(3)]
    have "scan_from hit n len (pos + 1) \<noteq> []" by simp
    with inside False show ?thesis by simp
  qed
qed

lemma occurs_at_infix: "occurs_at lit (pre @ lit @ post) (length pre)"
  by (simp add: occurs_at_def slice_def)

lemma finditer_literal_finds:
  assumes "s = pre @ lit @ post"
  shows "finditer_literal lit s \<noteq> []"
proof -
  have "occurs_at lit s (length pre)" unfolding assms by (rule occurs_at_infix)
  moreover have "length pre \<le> length s" by (simp add: assms)
  ultimately show ?thesis
    unfolding finditer_literal_def by (intro scan_from_finds [of _ "length pre"]) simp_all
qed

lemma finditer_literal_occurs:
  "sp \<in> set (finditer_literal lit s) \<Longrightarrow> occurs_at lit s (fst sp)"
  unfolding finditer_literal_def by (drule scan_from_spans) simp

lemma mention_match_fields:
  "keyword (mention_match text name cat sev sp) = name"
  "KeywordMatch.category (mention_match text name cat sev sp) = cat"
  "KeywordMatch.severity (mention_match text name cat sev sp) = sev"
  "position (mention_match text name cat sev sp) = fst sp"
  by (simp_all add: mention_match_def Let_def)

lemma leader_mention_reported:
  assumes "leader \<in> set KNOWN_AUTHORITARIAN_LEADERS"
      and "str_lower py text = pre @ str_lower py leader @ post"
  shows "\<exists>m \<in> set (check_for_authoritarian_mentions py text).
            keyword m = leader \<and> KeywordMatch.category m = ustr ''authoritarian_mention''
            \<and> KeywordMatch.severity m = ustr ''medium''
            \<and> occurs_at (str_lower py leader) (str_lower py text) (position m)"
proof -
  from finditer_literal_finds [OF assms(2)]
  obtain sp where sp: "sp \<in> set (finditer_literal (str_lower py leader) (str_lower py text))"
    by (cases "finditer_literal (str_lower py leader) (str_lower py text)") auto
  let ?m = "mention_match text leader (ustr ''authoritarian_mention'') (ustr ''medium'') sp"
  from sp assms(1) have "?m \<in> set (check_for_authoritarian_mentions py text)"
    by (auto simp: check_for_authoritarian_mentions_def Let_def)
  moreover have "occurs_at (str_lower py leader) (str_lower py text) (position ?m)"
    using finditer_literal_occurs [OF sp] by (simp add: mention_match_fields)
  ultimately show ?thesis
    by (intro bexI [of _ ?m]) (simp_all add: mention_match_fields)
qed





lemma putin_is_listed: "ustr ''Putin'' \<in> set KNOWN_AUTHORITARIAN_LEADERS"
  by code_simp



lemma lower_computing:
  "str_lower example_python (ustr ''computing'')
     = ustr ''com'' @ str_lower example_python (ustr ''Putin'') @ ustr ''g''"
  by code_simp







section \<open>Properties of the applicant analysis\<close>

lemma classify_russia:
  "get_regime_classification (ustr ''Russia'')
     = \<lparr>classification = ustr ''fully_authoritarian'', region = ustr ''europe_central_asia'',
        is_authoritarian = True\<rparr>"
  by code_simp

lemma classify_canada:
  "get_regime_classification (ustr ''Canada'')
     = \<lparr>classification = ustr ''democratic'', region = ustr ''americas'',
        is_authoritarian = False\<rparr>"
  by code_simp

lemma wakanda_unlisted: "unlisted (ustr ''Wakanda'')"
  by code_simp

lemma classify_unlisted:
  "unlisted c \<Longrightarrow>
     get_regime_classification c
       = \<lparr>classification = ustr ''unknown'', region = ustr ''unknown'',
          is_authoritarian = False\<rparr>"
  by (simp add: unlisted_def get_regime_classification_def Let_def)

lemma check_country_russia: "check_country (ustr ''Russia'') = [country_flag_russia]"
  by code_simp

lemma check_country_canada: "check_country (ustr ''Canada'') = []"
  by (simp add: check_country_def classify_canada)

lemma check_country_unlisted: "unlisted c \<Longrightarrow> check_country c = []"
  by (simp add: check_country_def classify_unlisted)

lemma analyze_applicant_no_content_flags:
  assumes "\<forall>item \<in> set items. content_item_flags py self item = Inr []"
      and "\<forall>profile \<in> set (case profiles of None \<Rightarrow> [] | Some ps \<Rightarrow> ps).
              profile_flags py self profile = Inr []"
  shows "analyze_applicant py self now \<lparr>data_id = aid, data_country = Some c\<rparr> items profiles
         = (let fs = (if c = [] then [] else check_country c);
                r2 = \<lparr>applicant_id = aid, total_content_items = length items, flags = fs,
                       risk_score = calculate_risk_score fs,
                       risk_level = determine_risk_level (calculate_risk_score fs),
                       recommendation = ustr ''pending_review'', analyzed_at = now,
                       summary = []\<rparr>;
                r3 = r2\<lparr>recommendation := generate_recommendation r2\<rparr>
            in Inr (r3\<lparr>summary := generate_summary py r3\<rparr>))"
  unfolding analyze_applicant_def
  by (simp add: try_extend_all_empty [OF assms(1)] try_extend_all_empty [OF assms(2)] Let_def)

lemma score_russia: "calculate_risk_score [country_flag_russia] = 20"
  by (simp add: calculate_risk_score_sum flag_weight_def country_flag_russia_def)

lemma recommendation_russia:
  "generate_recommendation
     \<lparr>applicant_id = aid, total_content_items = n, flags = [country_flag_russia],
      risk_score = 20, risk_level = ustr ''medium'', recommendation = ustr ''pending_review'',
      analyzed_at = now, summary = []\<rparr> = ustr ''pending_review''"
  by (simp add: generate_recommendation_def country_flag_russia_def critical_categories_def)

lemma scan_pattern_no_match:
  "(case re_finditer py (fst entry) subject of Inl e \<Rightarrow> e = ReError | Inr spans \<Rightarrow> spans = [])
     \<Longrightarrow> scan_pattern py text subject c entry = Inr []"
  by (auto simp: scan_pattern_def split: sum.splits)

lemma scan_category_no_match:
  assumes "no_pattern_matches py ka text"
  shows "scan_category py (keyword_database ka) text (str_lower py text) c = Inr []"
proof (cases "map_of (keyword_database ka) c")
  case None
  then show ?thesis by (simp add: scan_category_def)
next
  case (Some es)
  then have "(c, es) \<in> set (keyword_database ka)" by (rule map_of_SomeD)
  with assms have "\<forall>entry \<in> set es.
      (case re_finditer py (fst entry) (str_lower py text) of
         Inl e \<Rightarrow> e = ReError | Inr spans \<Rightarrow> spans = [])"
    by (auto simp: no_pattern_matches_def list_all_iff)
  then have "\<forall>entry \<in> set es. scan_pattern py text (str_lower py text) c entry = Inr []"
    by (auto intro: scan_pattern_no_match)
  with Some show ?thesis by (simp add: scan_category_def try_extend_all_empty)
qed

lemma analyze_text_no_match:
  "no_pattern_matches py ka text \<Longrightarrow> analyze_text py ka text cats = Inr []"
  by (simp add: analyze_text_def Let_def scan_category_no_match try_extend_all_empty)

lemma analyze_content_clean:
  assumes "analyze_text py (keyword_analyzer self) text None = Inr []"
      and "strict_mode self \<longrightarrow> check_for_authoritarian_mentions py text = []"
  shows "analyze_content py self text source url pub = Inr []"
  using assms by (auto simp: analyze_content_def Let_def)

lemma content_item_flags_clean:
  assumes "\<forall>t. item_text_content item = Some t \<longrightarrow> clean_text py self t"
  shows "content_item_flags py self item = Inr []"
proof (cases "item_text_content item")
  case None
  then show ?thesis by (simp add: content_item_flags_def)
next
  case (Some t)
  with assms have "clean_text py self t" by simp
  then have "analyze_content py self t
               (get_or (item_platform item) (Some (ustr ''unknown'')))
               (item_url item) (item_published_at item) = Inr []"
    by (intro analyze_content_clean) (simp_all add: clean_text_def analyze_text_no_match)
  with Some show ?thesis by (simp add: content_item_flags_def)
qed

lemma profile_flags_clean:
  assumes "\<forall>t. profile_bio profile = Some t \<longrightarrow> clean_text py self t"
  shows "profile_flags py self profile = Inr []"
proof (cases "profile_bio profile")
  case None
  then show ?thesis by (simp add: profile_flags_def)
next
  case (Some t)
  with assms have "clean_text py self t" by simp
  then have "analyze_content py self t
               (Some (format_optional (get_or (profile_platform profile) (Some (ustr ''unknown'')))
                        @ ustr ''_bio''))
               (profile_url profile) None = Inr []"
    by (intro analyze_content_clean) (simp_all add: clean_text_def analyze_text_no_match)
  with Some show ?thesis by (simp add: profile_flags_def)
qed

lemma analyze_applicant_no_flags:
  assumes "data_country applicant = None \<or> data_country applicant = Some []"
      and "try_extend (content_item_flags py self) items = Inr []"
      and "try_extend (profile_flags py self)
             (case profiles of None \<Rightarrow> [] | Some ps \<Rightarrow> ps) = Inr []"
  shows "analyze_applicant py self now applicant items profiles
           = Inr (approved_result (data_id applicant) (length items) now)"
  using assms(1)
  unfolding analyze_applicant_def assms(2,3)
  by (auto simp: Let_def approved_result_def calculate_risk_score_def determine_risk_level_def
        generate_recommendation_def generate_summary_def)

lemma hello_world_no_match:
  "no_pattern_matches example_python (keyword_analyzer violence_analyzer) (ustr ''hello world'')"
  by code_simp

lemma violence_analyzer_not_strict: "\<not> strict_mode violence_analyzer"
  by (simp add: violence_analyzer_def)

lemma hello_world_clean: "clean_text example_python violence_analyzer (ustr ''hello world'')"
  by (simp add: clean_text_def hello_world_no_match violence_analyzer_not_strict)

lemma quiet_items_no_flags:
  "\<forall>item \<in> set quiet_items. content_item_flags example_python violence_analyzer item = Inr []"
  by (intro ballI content_item_flags_clean) (auto simp: quiet_items_def hello_world_clean)

lemma computing_no_match:
  "no_pattern_matches example_python (keyword_analyzer strict_analyzer) (ustr ''computing'')"
  by code_simp

lemma computing_mentions:
  "check_for_authoritarian_mentions example_python (ustr ''computing'') \<noteq> []"
  using leader_mention_reported [OF putin_is_listed lower_computing] by auto

lemma mention_flag_weight: "flag_weight (mention_flag source url pub m) = 3"
  by (simp add: flag_weight_def mention_flag_def)

lemma mention_flags_score:
  assumes "ms \<noteq> []"
  shows "0 < calculate_risk_score (map (mention_flag source url pub) ms)"
proof -
  from assms obtain m rest where ms: "ms = m # rest" by (cases ms) auto
  have "0 \<le> sum_list (map flag_weight (map (mention_flag source url pub) rest))"
    by (rule sum_flag_weight_nonneg)
  then have "3 \<le> sum_list (map flag_weight (map (mention_flag source url pub) ms))"
    unfolding ms by (simp add: mention_flag_weight)
  then show ?thesis by (simp add: calculate_risk_score_sum)
qed

text \<open>
  C4, as amended: for every text in which no pattern of any category matches,
  \<open>analyze_text\<close> returns the empty list. \<open>analyze_applicant\<close> over an applicant
  with no country, whose content items and bios hold only such texts, gives zero flags,
  score 0, level \<open>low\<close>, recommendation \<open>approve\<close> and the summary that the applicant
  appears to meet the guidelines, when strict mode is off, or, in strict mode, when the
  texts also mention no listed leader, organisation or country.
\<close>

theorem clean_texts_are_approved:
  assumes "data_country applicant = None \<or> data_country applicant = Some []"
      and "\<forall>item \<in> set items. \<forall>t. item_text_content item = Some t \<longrightarrow> clean_text py self t"
      and "\<forall>profile \<in> set (case profiles of None \<Rightarrow> [] | Some ps \<Rightarrow> ps).
             \<forall>t. profile_bio profile = Some t \<longrightarrow> clean_text py self t"
  shows "(no_pattern_matches py (keyword_analyzer self) text
            \<longrightarrow> analyze_text py (keyword_analyzer self) text cats = Inr [])
         \<and> analyze_applicant py self now applicant items profiles
             = Inr \<lparr>applicant_id = data_id applicant, total_content_items = length items,
                    flags = [], risk_score = 0, risk_level = ustr ''low'',
                    recommendation = ustr ''approve'', analyzed_at = now,
                    summary = ustr ''No concerning content found. Applicant appears to meet vetting guidelines.''\<rparr>"
proof -
  have items: "try_extend (content_item_flags py self) items = Inr []"
    using assms(2) by (intro try_extend_all_empty ballI content_item_flags_clean) blast
  have profs: "try_extend (profile_flags py self)
                 (case profiles of None \<Rightarrow> [] | Some ps \<Rightarrow> ps) = Inr []"
    using assms(3) by (intro try_extend_all_empty ballI profile_flags_clean) blast
  from analyze_applicant_no_flags [OF assms(1) items profs] analyze_text_no_match
  show ?thesis by (simp add: approved_result_def)
qed

theorem clean_texts_are_approved_witness:
  "clean_text example_python violence_analyzer (ustr ''hello world'')
   \<and> analyze_text example_python (keyword_analyzer violence_analyzer) (ustr ''hello world'') None
       = Inr []
   \<and> analyze_applicant example_python violence_analyzer 7
        \<lparr>data_id = Some 1, data_country = None\<rparr> quiet_items (Some [quiet_profile])
       = Inr \<lparr>applicant_id = Some 1, total_content_items = 2,
              flags = [], risk_score = 0, risk_level = ustr ''low'',
              recommendation = ustr ''approve'', analyzed_at = 7,
              summary = ustr ''No concerning content found. Applicant appears to meet vetting guidelines.''\<rparr>"
proof -
  have i: "\<forall>item \<in> set quiet_items. \<forall>t. item_text_content item = Some t
             \<longrightarrow> clean_text example_python violence_analyzer t"
    by (simp add: quiet_items_def hello_world_clean)
  have p: "\<forall>profile \<in> set (case Some [quiet_profile] of None \<Rightarrow> [] | Some ps \<Rightarrow> ps).
             \<forall>t. profile_bio profile = Some t \<longrightarrow> clean_text example_python violence_analyzer t"
    by (simp add: quiet_profile_def hello_world_clean)
  have c: "data_country \<lparr>data_id = Some 1, data_country = None\<rparr> = None
           \<or> data_country \<lparr>data_id = Some 1, data_country = None\<rparr> = Some []"
    by simp
  have len: "length quiet_items = 2" by (simp add: quiet_items_def)
  from clean_texts_are_approved [OF c i p, of "ustr ''hello world''" None 7]
       hello_world_clean hello_world_no_match len
  show ?thesis by simp
qed

text \<open>
  The claim without the condition on strict mode fails: no pattern matches in the text
  \<open>computing\<close>, but it holds the leader name \<open>Putin\<close> as a substring, and in strict
  mode the analysis flags the mention and the score is positive.
\<close>

theorem strict_mode_flags_clean_text:
  "no_pattern_matches example_python (keyword_analyzer strict_analyzer) (ustr ''computing'')
   \<and> analyze_text example_python (keyword_analyzer strict_analyzer) (ustr ''computing'') None
       = Inr []
   \<and> (\<exists>r. analyze_applicant example_python strict_analyzer 0
              \<lparr>data_id = Some 1, data_country = None\<rparr> [computing_item] None = Inr r
          \<and> flags r \<noteq> [] \<and> 0 < risk_score r)"
proof -
  let ?ms = "take 5 (check_for_authoritarian_mentions example_python (ustr ''computing''))"
  let ?src = "Some (ustr ''twitter'')"
  have nm: "analyze_text example_python (keyword_analyzer strict_analyzer) (ustr ''computing'') None
              = Inr []"
    by (rule analyze_text_no_match [OF computing_no_match])
  have ms: "?ms \<noteq> []" using computing_mentions by simp
  have sm: "strict_mode strict_analyzer" by (simp add: strict_analyzer_def)
  have ac: "analyze_content example_python strict_analyzer (ustr ''computing'') ?src None None
              = Inr (map (mention_flag ?src None None) ?ms)"
    using computing_mentions sm by (simp add: analyze_content_def nm Let_def)
  have ci: "content_item_flags example_python strict_analyzer computing_item
              = Inr (map (mention_flag ?src None None) ?ms)"
    by (simp add: content_item_flags_def computing_item_def get_or_def ac)
  have "\<exists>r. analyze_applicant example_python strict_analyzer 0
              \<lparr>data_id = Some 1, data_country = None\<rparr> [computing_item] None = Inr r
          \<and> flags r = map (mention_flag ?src None None) ?ms
          \<and> risk_score r = calculate_risk_score (map (mention_flag ?src None None) ?ms)"
    by (simp add: analyze_applicant_def ci Let_def)
  with ms mention_flags_score [OF ms] computing_no_match nm show ?thesis
    by auto
qed

lemma spaced_canada_democratic: "strip (ustr ''  Canada '') \<in> set ALL_DEMOCRATIC"
  by code_simp

text \<open>
  C5: the country classification is a lookup of the stripped name in the table. An
  applicant from Russia whose content items and bios raise no flag gets exactly one
  flag, of category \<open>authoritarian_connection\<close> and severity \<open>high\<close>, with risk score
  20, risk level \<open>medium\<close> and recommendation \<open>pending_review\<close>. Canada, as every
  country of the democratic list, gives no country flag. Every country string that is
  in none of the lists, such as Wakanda, is classified \<open>unknown\<close>, is not
  authoritarian, and gives no country flag.
\<close>

theorem country_classification_flags:
  assumes "\<forall>item \<in> set items. content_item_flags py self item = Inr []"
      and "\<forall>profile \<in> set (case profiles of None \<Rightarrow> [] | Some ps \<Rightarrow> ps).
              profile_flags py self profile = Inr []"
  shows "(\<exists>r. analyze_applicant py self now
                 \<lparr>data_id = aid, data_country = Some (ustr ''Russia'')\<rparr> items profiles = Inr r
            \<and> flags r = [country_flag_russia]
            \<and> ContentFlag.category country_flag_russia = ustr ''authoritarian_connection''
            \<and> ContentFlag.severity country_flag_russia = ustr ''high''
            \<and> risk_score r = 20 \<and> risk_level r = ustr ''medium''
            \<and> recommendation r = ustr ''pending_review'')
         \<and> check_country (ustr ''Canada'') = []
         \<and> (\<exists>r. analyze_applicant py self now
                 \<lparr>data_id = aid, data_country = Some (ustr ''Canada'')\<rparr> items profiles = Inr r
               \<and> flags r = [])
         \<and> classification (get_regime_classification (ustr ''Wakanda'')) = ustr ''unknown''
         \<and> is_authoritarian (get_regime_classification (ustr ''Wakanda'')) = False
         \<and> check_country (ustr ''Wakanda'') = []
         \<and> (\<exists>r. analyze_applicant py self now
                 \<lparr>data_id = aid, data_country = Some (ustr ''Wakanda'')\<rparr> items profiles = Inr r
               \<and> flags r = [])
         \<and> (strip c \<in> set ALL_DEMOCRATIC \<longrightarrow>
               classification (get_regime_classification c) = ustr ''democratic''
               \<and> is_authoritarian (get_regime_classification c) = False
               \<and> check_country c = [])
         \<and> (unlisted c \<longrightarrow>
               classification (get_regime_classification c) = ustr ''unknown''
               \<and> is_authoritarian (get_regime_classification c) = False
               \<and> is_authoritarian_regime c = False
               \<and> check_country c = []
               \<and> (\<exists>r. analyze_applicant py self now
                        \<lparr>data_id = aid, data_country = Some c\<rparr> items profiles = Inr r
                     \<and> flags r = []))"
proof -
  note eq = analyze_applicant_no_content_flags [OF assms]
  have russia: "\<exists>r. analyze_applicant py self now
                 \<lparr>data_id = aid, data_country = Some (ustr ''Russia'')\<rparr> items profiles = Inr r
            \<and> flags r = [country_flag_russia]
            \<and> risk_score r = 20 \<and> risk_level r = ustr ''medium''
            \<and> recommendation r = ustr ''pending_review''"
    unfolding eq
    by (simp add: Let_def check_country_russia score_russia determine_risk_level_def
          recommendation_russia)
  have canada: "\<exists>r. analyze_applicant py self now
                 \<lparr>data_id = aid, data_country = Some (ustr ''Canada'')\<rparr> items profiles = Inr r
               \<and> flags r = []"
    unfolding eq by (simp add: Let_def check_country_canada)
  have unl: "\<exists>r. analyze_applicant py self now
                 \<lparr>data_id = aid, data_country = Some d\<rparr> items profiles = Inr r
               \<and> flags r = []" if "unlisted d" for d
    unfolding eq using that by (simp add: Let_def check_country_unlisted)
  have fl: "ContentFlag.category country_flag_russia = ustr ''authoritarian_connection''
            \<and> ContentFlag.severity country_flag_russia = ustr ''high''"
    by (simp add: country_flag_russia_def)
  have dem: "strip c \<in> set ALL_DEMOCRATIC \<longrightarrow>
               classification (get_regime_classification c) = ustr ''democratic''
               \<and> is_authoritarian (get_regime_classification c) = False
               \<and> check_country c = []"
    by (simp add: get_regime_classification_def check_country_def Let_def)
  have gen: "unlisted c \<longrightarrow>
               classification (get_regime_classification c) = ustr ''unknown''
               \<and> is_authoritarian (get_regime_classification c) = False
               \<and> is_authoritarian_regime c = False
               \<and> check_country c = []
               \<and> (\<exists>r. analyze_applicant py self now
                        \<lparr>data_id = aid, data_country = Some c\<rparr> items profiles = Inr r
                     \<and> flags r = [])"
    using unl [of c]
    by (simp add: classify_unlisted check_country_unlisted is_authoritarian_regime_def)
  from russia canada unl [OF wakanda_unlisted] fl dem gen show ?thesis
    by (simp add: check_country_canada check_country_unlisted [OF wakanda_unlisted]
          classify_unlisted [OF wakanda_unlisted])
qed

theorem country_classification_flags_witness:
  "content_item_flags example_python violence_analyzer (quiet_items ! 0) = Inr []
   \<and> content_item_flags example_python violence_analyzer (quiet_items ! 1) = Inr []
   \<and> (\<exists>r. analyze_applicant example_python violence_analyzer 0
              \<lparr>data_id = Some 1, data_country = Some (ustr ''Russia'')\<rparr> quiet_items None = Inr r
          \<and> flags r = [country_flag_russia] \<and> risk_score r = 20
          \<and> risk_level r = ustr ''medium'' \<and> recommendation r = ustr ''pending_review'')
   \<and> check_country (ustr ''Canada'') = [] \<and> check_country (ustr ''Wakanda'') = []
   \<and> unlisted (ustr ''Wakanda'')
   \<and> strip (ustr ''  Canada '') \<in> set ALL_DEMOCRATIC
   \<and> check_country (ustr ''  Canada '') = []"
proof -
  have p: "\<forall>profile \<in> set (case None of None \<Rightarrow> [] | Some ps \<Rightarrow> ps).
             profile_flags example_python violence_analyzer profile = Inr []"
    by simp
  have q0: "quiet_items ! 0 \<in> set quiet_items" and q1: "quiet_items ! 1 \<in> set quiet_items"
    by (simp_all add: quiet_items_def)
  from country_classification_flags [OF quiet_items_no_flags p, of 0 "Some 1" "ustr ''Wakanda''"]
       country_classification_flags [OF quiet_items_no_flags p, of 0 "Some 1" "ustr ''  Canada ''"]
       quiet_items_no_flags q0 q1 wakanda_unlisted spaced_canada_democratic
  show ?thesis by blast
qed

end
